theory Spec2Isabelle
  imports Complex_Main
begin

section \<open>MetalZone storefront: cart pricing, checkout and order lifecycle\<close>

text \<open>
  A shallow embedding of the pricing and order code of \<^verbatim>\<open>app.py\<close> and of the
  columns of \<^verbatim>\<open>models.py\<close> it reads and writes.

  Conventions of the embedding.
  \<^item> Money columns are \<^verbatim>\<open>db.Float\<close> in the source, binary doubles. The embedding
    computes with exact rationals: sums, products, quotients, comparisons and \<^verbatim>\<open>min\<close>
    are the exact ones. The code's values differ from these by the representation error
    of doubles, so the embedding gives the tax only up to that error: \<open>py_round\<close>
    rounds the exact product, the code rounds a double that lies just above or below a
    decimal tie. The properties below are the relations among the values a pricing
    result holds, the comparisons the code makes and the rows it writes; none of them
    depends on how a tie of the tax is rounded, and no property of the rounding itself
    is stated.
  \<^item> Integer columns and Python integers are \<^typ>\<open>int\<close>.
  \<^item> Nullable columns are \<^typ>\<open>'a option\<close>; string columns (status, payment status,
    discount type) stay strings, since the handlers compare and assign them as such.
  \<^item> \<^verbatim>\<open>datetime.utcnow()\<close> is an argument \<open>now\<close> (seconds, an integer); the random
    characters drawn by the code generators are arguments too.
  \<^item> A handler that flashes a message and redirects without writing returns
    \<open>Inl\<close> of an \<open>error\<close>; the database is then the one it was given.
\<close>

type_synonym money = rat
type_synonym datetime = int

subsection \<open>Rows of \<^verbatim>\<open>models.py\<close>\<close>

record product =
  name :: string
  sku :: string
  price :: money
  stock :: int
  sold_count :: int
  is_active :: bool

record coupon =
  code :: string
  discount_type :: string
  discount_value :: money
  min_purchase :: money
  max_discount :: "money option"
  usage_limit :: "int option"
  used_count :: int
  valid_from :: datetime
  valid_until :: datetime
  coupon_is_active :: bool

record order_item =
  product_id :: int
  quantity :: int
  unit_price :: money
  product_name :: string
  product_sku :: string

record order =
  order_id :: int
  user_id :: int
  order_number :: string
  status :: string
  payment_status :: string
  payment_method :: string
  subtotal :: money
  tax :: money
  shipping :: money
  discount :: money
  coupon_code :: "string option"
  total :: money
  shipping_address :: string
  tracking_code :: "string option"
  estimated_delivery :: datetime
  delivered_at :: "datetime option"
  order_notes :: string
  items :: "order_item list"

record address =
  address_id :: int
  address_user_id :: int
  address_name :: string
  mobile :: string
  address_line1 :: string
  address_line2 :: "string option"
  city :: string
  state :: string
  pincode :: string
  country :: string
  is_default :: bool

record user =
  uid :: int
  is_admin :: bool

text \<open>
  The tables. Products are keyed by their primary key \<^verbatim>\<open>id\<close> and coupons by their
  unique \<^verbatim>\<open>code\<close> column; orders and addresses are kept as rows in insertion
  order. A reference to a \<^verbatim>\<open>Product\<close> object is its primary key: the ORM session hands
  out one object per key, so every holder of the reference reads and writes the same row.
\<close>

record database =
  products :: "int \<rightharpoonup> product"
  coupons :: "string \<rightharpoonup> coupon"
  orders :: "order list"
  addresses :: "address list"

text \<open>
  A key of the cart dictionary is a string that \<^verbatim>\<open>int\<close> accepts. \<^verbatim>\<open>cart_add\<close> and
  \<^verbatim>\<open>cart_remove\<close> use the key \<^verbatim>\<open>str(product_id)\<close>; \<^verbatim>\<open>cart_update\<close> takes the key from
  the name of a form field, so a request can write a second key for the same product
  (\<^verbatim>\<open>'01'\<close> next to \<^verbatim>\<open>'1'\<close>). Each integer has countably many such spellings, so a
  key is the product id it parses to together with the number of its spelling, where
  spelling 0 is \<^verbatim>\<open>str(product_id)\<close>: two keys are the same string exactly when both
  components agree. A form field or key that \<^verbatim>\<open>int\<close> rejects makes the route raise
  before it writes anything; such requests are not among the requests of the embedding.
\<close>

type_synonym cart_key = "int \<times> nat"

text \<open>\<^verbatim>\<open>int(pid)\<close> on a key, and the key \<^verbatim>\<open>str(product_id)\<close>.\<close>

definition key_id :: "cart_key \<Rightarrow> int" where
  "key_id k = fst k"

definition str_key :: "int \<Rightarrow> cart_key" where
  "str_key p = (p, 0)"

text \<open>
  The Flask session: the cart dictionary (key to quantity, in insertion order) and the
  applied coupon code. Between two requests the session travels in a cookie, which may
  hand the keys back in another order; the properties below take the cart in the order
  \<^verbatim>\<open>cart_items\<close> is given it, and the stores they evaluate do not depend on that
  order.
\<close>

record session =
  session_cart :: "(cart_key \<times> int) list"
  session_coupon_code :: "string option"

text \<open>One entry of the list \<^verbatim>\<open>cart_items\<close> builds: the dictionary with keys
  \<^verbatim>\<open>product\<close>, \<^verbatim>\<open>quantity\<close> and \<^verbatim>\<open>subtotal\<close>.\<close>

record cart_line =
  line_product :: int
  line_quantity :: int
  line_subtotal :: money

datatype error =
    LoginRequired
  | AdminRequired
  | NotFound
  | Unauthorized
  | NotCancellable
  | EmptyCart
  | FormNotValidated
  | InvalidAddress
  | NoShippingAddress
  | IntegrityError
  | InvalidCoupon
  | CouponExpired
  | UsageLimitReached
  | MinimumPurchaseNotMet
  | ProductUnavailable

subsection \<open>Python built-ins used by the pricing code\<close>

text \<open>\<^verbatim>\<open>round(x, ndigits)\<close>: the nearest multiple of \<open>10 ^ -ndigits\<close>, a tie going to
  the even one.\<close>

definition round_half_even :: "rat \<Rightarrow> int" where
  "round_half_even x =
     (let f = \<lfloor>x\<rfloor>; d = x - of_int f
      in if d < 1 / 2 then f
         else if 1 / 2 < d then f + 1
         else if even f then f else f + 1)"

definition py_round :: "rat \<Rightarrow> nat \<Rightarrow> rat" where
  "py_round x ndigits = of_int (round_half_even (x * 10 ^ ndigits)) / 10 ^ ndigits"

text \<open>\<^verbatim>\<open>a or b\<close> on a nullable number: \<^verbatim>\<open>None\<close> and zero are both falsy.\<close>

definition py_or :: "money option \<Rightarrow> money \<Rightarrow> money" where
  "py_or a b = (case a of None \<Rightarrow> b | Some v \<Rightarrow> if v = 0 then b else v)"

text \<open>Truthiness of a nullable string: \<^verbatim>\<open>None\<close> and the empty string are falsy.\<close>

definition truthy :: "string option \<Rightarrow> bool" where
  "truthy s = (case s of None \<Rightarrow> False | Some v \<Rightarrow> v \<noteq> [])"

subsection \<open>\<^verbatim>\<open>cart_items\<close>\<close>

text \<open>The loop over the cart (app.py, lines 243 to 251).\<close>

fun cart_lines :: "(int \<rightharpoonup> product) \<Rightarrow> (cart_key \<times> int) list \<Rightarrow> cart_line list" where
  "cart_lines ps [] = []"
| "cart_lines ps ((k, qty) # rest) =
     (case ps (key_id k) of
        None \<Rightarrow> cart_lines ps rest
      | Some pr \<Rightarrow>
          if is_active pr \<and> 0 < stock pr
          then \<lparr>line_product = key_id k,
                line_quantity = min qty (stock pr),
                line_subtotal = of_int (min qty (stock pr)) * price pr\<rparr>
               # cart_lines ps rest
          else cart_lines ps rest)"

text \<open>Lines 260 to 263: the discount of a coupon that passed the two checks of line 259.\<close>

definition coupon_discount :: "coupon \<Rightarrow> money \<Rightarrow> money" where
  "coupon_discount c sub =
     (if discount_type c = ''percentage''
      then min (sub * discount_value c / 100) (py_or (max_discount c) sub)
      else min (discount_value c) sub)"

text \<open>\<^verbatim>\<open>Coupon.query.filter_by(code=coupon_code, is_active=True).first()\<close>\<close>

definition active_coupon :: "database \<Rightarrow> string \<Rightarrow> coupon option" where
  "active_coupon db cc =
     (case coupons db cc of
        None \<Rightarrow> None
      | Some c \<Rightarrow> if coupon_is_active c then Some c else None)"

text \<open>Lines 255 to 263.\<close>

definition session_discount :: "database \<Rightarrow> session \<Rightarrow> datetime \<Rightarrow> money \<Rightarrow> money" where
  "session_discount db sess now sub =
     (case session_coupon_code sess of
        None \<Rightarrow> 0
      | Some cc \<Rightarrow>
          if cc = [] then 0
          else (case active_coupon db cc of
                  None \<Rightarrow> 0
                | Some c \<Rightarrow>
                    if valid_from c \<le> now \<and> now \<le> valid_until c
                    then coupon_discount c sub
                    else 0))"

definition cart_items ::
  "database \<Rightarrow> session \<Rightarrow> datetime \<Rightarrow>
     cart_line list \<times> money \<times> money \<times> money \<times> money \<times> money" where
  "cart_items db sess now =
     (let its = cart_lines (products db) (session_cart sess);
          sub = sum_list (map line_subtotal its);
          tx = py_round (sub * (18 / 100)) 2;
          ship = (if 500 \<le> sub then 0 else 50);
          disc = session_discount db sess now sub;
          grand_total = sub + tx + ship - disc
      in (its, sub, tx, ship, disc, grand_total))"

subsection \<open>The cart routes\<close>

text \<open>\<^verbatim>\<open>cart[key] = value\<close> on a dictionary that keeps insertion order.\<close>

fun dict_set :: "(cart_key \<times> int) list \<Rightarrow> cart_key \<Rightarrow> int \<Rightarrow> (cart_key \<times> int) list" where
  "dict_set [] k v = [(k, v)]"
| "dict_set ((k', v') # rest) k v =
     (if k' = k then (k, v) # rest else (k', v') # dict_set rest k v)"

text \<open>\<^verbatim>\<open>cart.get(key, 0)\<close>\<close>

definition dict_get :: "(cart_key \<times> int) list \<Rightarrow> cart_key \<Rightarrow> int" where
  "dict_get d k = (case map_of d k of None \<Rightarrow> 0 | Some v \<Rightarrow> v)"

text \<open>\<^verbatim>\<open>cart_add\<close>: \<open>form_quantity\<close> is the parsed \<^verbatim>\<open>quantity\<close> field.\<close>

definition cart_add :: "database \<Rightarrow> session \<Rightarrow> int \<Rightarrow> int \<Rightarrow> error + session" where
  "cart_add db sess p form_quantity =
     (case products db p of
        None \<Rightarrow> Inl NotFound
      | Some pr \<Rightarrow>
          if \<not> is_active pr \<or> stock pr \<le> 0 then Inl ProductUnavailable
          else
            (let qty = max 1 form_quantity;
                 current_qty = dict_get (session_cart sess) (str_key p);
                 new_qty = current_qty + qty;
                 new_qty = (if stock pr < new_qty then stock pr else new_qty)
             in Inr (sess\<lparr>session_cart := dict_set (session_cart sess) (str_key p) new_qty\<rparr>)))"

text \<open>\<^verbatim>\<open>cart_update\<close>: the form fields whose name starts with \<^verbatim>\<open>qty_\<close>, in request
  order, each as the key that follows the prefix and the parsed value; the cart is
  rebuilt from an empty dictionary under those keys.\<close>

fun cart_update_loop ::
  "(int \<rightharpoonup> product) \<Rightarrow> (cart_key \<times> int) list \<Rightarrow> (cart_key \<times> int) list
     \<Rightarrow> (cart_key \<times> int) list" where
  "cart_update_loop ps [] c = c"
| "cart_update_loop ps ((k, v) # rest) c =
     (let qty = max 1 v
      in case ps (key_id k) of
           None \<Rightarrow> cart_update_loop ps rest c
         | Some pr \<Rightarrow>
             if is_active pr
             then cart_update_loop ps rest (dict_set c k (min qty (stock pr)))
             else cart_update_loop ps rest c)"

definition cart_update :: "database \<Rightarrow> session \<Rightarrow> (cart_key \<times> int) list \<Rightarrow> session" where
  "cart_update db sess form = sess\<lparr>session_cart := cart_update_loop (products db) form []\<rparr>"

text \<open>\<^verbatim>\<open>cart_remove\<close> pops the key \<^verbatim>\<open>str(product_id)\<close> and no other.\<close>

definition cart_remove :: "session \<Rightarrow> int \<Rightarrow> session" where
  "cart_remove sess p =
     sess\<lparr>session_cart := filter (\<lambda>kv. fst kv \<noteq> str_key p) (session_cart sess)\<rparr>"

text \<open>\<^verbatim>\<open>cart_coupon\<close>: \<open>cc\<close> is the submitted code after \<^verbatim>\<open>strip().upper()\<close>. The four
  checks of the route, in its order.\<close>

definition usage_limit_reached :: "coupon \<Rightarrow> bool" where
  "usage_limit_reached c =
     (case usage_limit c of
        None \<Rightarrow> False
      | Some l \<Rightarrow> l \<noteq> 0 \<and> l \<le> used_count c)"

definition cart_coupon :: "database \<Rightarrow> session \<Rightarrow> string \<Rightarrow> datetime \<Rightarrow> error + session" where
  "cart_coupon db sess cc now =
     (case active_coupon db cc of
        None \<Rightarrow> Inl InvalidCoupon
      | Some c \<Rightarrow>
          if now < valid_from c \<or> valid_until c < now then Inl CouponExpired
          else if usage_limit_reached c then Inl UsageLimitReached
          else (case cart_items db sess now of
                  (its, sub, tx, ship, disc, grand_total) \<Rightarrow>
                    if sub < min_purchase c then Inl MinimumPurchaseNotMet
                    else Inr (sess\<lparr>session_coupon_code := Some cc\<rparr>)))"

definition cart_coupon_remove :: "session \<Rightarrow> session" where
  "cart_coupon_remove sess = sess\<lparr>session_coupon_code := None\<rparr>"

subsection \<open>Checkout\<close>

text \<open>The code generators: \<open>ts\<close> is the formatted clock, \<open>rnd\<close> the characters drawn.\<close>

definition generate_order_number :: "string \<Rightarrow> string \<Rightarrow> string" where
  "generate_order_number ts rnd = ''MZ'' @ ts @ rnd"

definition generate_tracking_code :: "string \<Rightarrow> string" where
  "generate_tracking_code rnd = ''MZ-'' @ rnd"

text \<open>The validated \<^verbatim>\<open>CheckoutForm\<close>.\<close>

record checkout_form =
  form_address_id :: "int option"
  form_payment_method :: string
  form_notes :: string

definition newline :: string where
  "newline = [CHR 0x0A]"

definition format_address :: "address \<Rightarrow> string" where
  "format_address a =
     address_name a @ '', '' @ mobile a @ newline @ address_line1 a
     @ (case address_line2 a of
          None \<Rightarrow> []
        | Some l2 \<Rightarrow> if l2 = [] then [] else newline @ l2)
     @ newline @ city a @ '', '' @ state a @ '' '' @ pincode a @ newline @ country a"

text \<open>Lines 626 to 648: the selected address if it is the user's, else the user's default
  or first address.\<close>

definition default_address :: "database \<Rightarrow> user \<Rightarrow> error + string" where
  "default_address db u =
     (case filter (\<lambda>a. address_user_id a = uid u) (addresses db) of
        [] \<Rightarrow> Inl NoShippingAddress
      | a0 # others \<Rightarrow>
          (case find is_default (a0 # others) of
             Some a \<Rightarrow> Inr (format_address a)
           | None \<Rightarrow> Inr (format_address a0)))"

definition selected_address :: "database \<Rightarrow> user \<Rightarrow> int \<Rightarrow> error + string" where
  "selected_address db u i =
     (case find (\<lambda>a. address_id a = i) (addresses db) of
        None \<Rightarrow> Inl InvalidAddress
      | Some a \<Rightarrow>
          if address_user_id a = uid u then Inr (format_address a) else Inl InvalidAddress)"

definition resolve_shipping_address :: "database \<Rightarrow> user \<Rightarrow> int option \<Rightarrow> error + string" where
  "resolve_shipping_address db u aid =
     (case aid of
        None \<Rightarrow> default_address db u
      | Some i \<Rightarrow> if 0 < i then selected_address db u i else default_address db u)"

text \<open>Lines 672 to 683, the loop over the priced lines: the stock and the sold count of the
  referenced row are written, and an \<^verbatim>\<open>OrderItem\<close> snapshots its name, SKU and price.
  A line always refers to a row of the table it was priced from.\<close>

fun place_lines ::
  "(int \<rightharpoonup> product) \<Rightarrow> cart_line list \<Rightarrow> (int \<rightharpoonup> product) \<times> order_item list" where
  "place_lines ps [] = (ps, [])"
| "place_lines ps (l # rest) =
     (case ps (line_product l) of
        None \<Rightarrow> place_lines ps rest
      | Some pr \<Rightarrow>
          (let pr' = pr\<lparr>stock := max 0 (stock pr - line_quantity l),
                         sold_count := sold_count pr + line_quantity l\<rparr>;
               oi = \<lparr>product_id = line_product l,
                     quantity = line_quantity l,
                     unit_price = price pr',
                     product_name = name pr',
                     product_sku = sku pr'\<rparr>
           in case place_lines (ps(line_product l \<mapsto> pr')) rest of
                (ps', ois) \<Rightarrow> (ps', oi # ois)))"

text \<open>Lines 686 to 690: \<^verbatim>\<open>Coupon.query.filter_by(code=coupon_code).first()\<close>, with no
  filter on \<^verbatim>\<open>is_active\<close>.\<close>

definition count_coupon_use :: "(string \<rightharpoonup> coupon) \<Rightarrow> string option \<Rightarrow> (string \<rightharpoonup> coupon)" where
  "count_coupon_use cs cc =
     (case cc of
        None \<Rightarrow> cs
      | Some k \<Rightarrow>
          if k = [] then cs
          else (case cs k of
                  None \<Rightarrow> cs
                | Some c \<Rightarrow> cs(k \<mapsto> c\<lparr>used_count := used_count c + 1\<rparr>)))"

text \<open>The primary key the table gives a new order row.\<close>

definition next_order_id :: "order list \<Rightarrow> int" where
  "next_order_id os = fold (\<lambda>r m. max (order_id r) m) os 0 + 1"

text \<open>The unique indexes on \<^verbatim>\<open>order_number\<close> and \<^verbatim>\<open>tracking_code\<close>.\<close>

definition order_number_taken :: "order list \<Rightarrow> string \<Rightarrow> bool" where
  "order_number_taken os n = list_ex (\<lambda>r. order_number r = n) os"

definition tracking_code_taken :: "order list \<Rightarrow> string \<Rightarrow> bool" where
  "tracking_code_taken os t = list_ex (\<lambda>r. tracking_code r = Some t) os"

definition days :: "int \<Rightarrow> int" where
  "days n = n * 86400"

text \<open>Lines 651 to 667: the \<^verbatim>\<open>Order\<close> row, with the totals \<^verbatim>\<open>cart_items\<close> returned.\<close>

definition new_order ::
  "int \<Rightarrow> user \<Rightarrow> checkout_form \<Rightarrow> session \<Rightarrow> datetime \<Rightarrow> string \<Rightarrow> string \<Rightarrow> string \<Rightarrow>
     money \<Rightarrow> money \<Rightarrow> money \<Rightarrow> money \<Rightarrow> money \<Rightarrow> order_item list \<Rightarrow> order" where
  "new_order i u f sess now addr number tracking sub tx ship disc grand_total ois =
     \<lparr>order_id = i,
      user_id = uid u,
      order_number = number,
      status = ''placed'',
      payment_status = ''pending'',
      payment_method = form_payment_method f,
      subtotal = sub,
      tax = tx,
      shipping = ship,
      discount = disc,
      coupon_code = session_coupon_code sess,
      total = grand_total,
      shipping_address = addr,
      tracking_code = Some tracking,
      estimated_delivery = now + days 5,
      delivered_at = None,
      order_notes = form_notes f,
      items = ois\<rparr>"

text \<open>\<^verbatim>\<open>checkout\<close>: \<open>form\<close> is \<open>None\<close> for a GET or a form that did not validate. The
  result is the new database, the new session and the order row that was inserted.\<close>

definition checkout ::
  "database \<Rightarrow> session \<Rightarrow> user option \<Rightarrow> checkout_form option \<Rightarrow> datetime \<Rightarrow>
     string \<Rightarrow> string \<Rightarrow> string \<Rightarrow> error + (database \<times> session \<times> order)" where
  "checkout db sess current_user form now ts rnd_number rnd_tracking =
     (case current_user of
        None \<Rightarrow> Inl LoginRequired
      | Some u \<Rightarrow>
          (case cart_items db sess now of
             (its, sub, tx, ship, disc, grand_total) \<Rightarrow>
               if its = [] then Inl EmptyCart
               else
                 (case form of
                    None \<Rightarrow> Inl FormNotValidated
                  | Some f \<Rightarrow>
                      (case resolve_shipping_address db u (form_address_id f) of
                         Inl e \<Rightarrow> Inl e
                       | Inr addr \<Rightarrow>
                           (let number = generate_order_number ts rnd_number;
                                tracking = generate_tracking_code rnd_tracking
                            in if order_number_taken (orders db) number
                                  \<or> tracking_code_taken (orders db) tracking
                               then Inl IntegrityError
                               else
                                 (case place_lines (products db) its of
                                    (ps', ois) \<Rightarrow>
                                      (let ord = new_order (next_order_id (orders db)) u f sess
                                                   now addr number tracking
                                                   sub tx ship disc grand_total ois
                                       in Inr (db\<lparr>products := ps',
                                                   coupons := count_coupon_use (coupons db)
                                                                (session_coupon_code sess),
                                                   orders := orders db @ [ord]\<rparr>,
                                               sess\<lparr>session_cart := [],
                                                     session_coupon_code := None\<rparr>,
                                               ord))))))))"

subsection \<open>Order lifecycle\<close>

text \<open>Writing back the row that \<^verbatim>\<open>Order.query.get\<close> returned.\<close>

fun update_order :: "order list \<Rightarrow> int \<Rightarrow> order \<Rightarrow> order list" where
  "update_order [] i new = []"
| "update_order (o1 # rest) i new =
     (if order_id o1 = i then new # rest else o1 # update_order rest i new)"

definition get_order :: "database \<Rightarrow> int \<Rightarrow> order option" where
  "get_order db i = find (\<lambda>r. order_id r = i) (orders db)"

text \<open>Lines 735 to 738 of \<^verbatim>\<open>order_cancel\<close>.\<close>

fun restore_stock :: "(int \<rightharpoonup> product) \<Rightarrow> order_item list \<Rightarrow> (int \<rightharpoonup> product)" where
  "restore_stock ps [] = ps"
| "restore_stock ps (it # rest) =
     (case ps (product_id it) of
        None \<Rightarrow> restore_stock ps rest
      | Some pr \<Rightarrow>
          restore_stock (ps(product_id it \<mapsto> pr\<lparr>stock := stock pr + quantity it\<rparr>)) rest)"

definition order_cancel :: "database \<Rightarrow> user option \<Rightarrow> int \<Rightarrow> error + database" where
  "order_cancel db current_user i =
     (case current_user of
        None \<Rightarrow> Inl LoginRequired
      | Some u \<Rightarrow>
          (case get_order db i of
             None \<Rightarrow> Inl NotFound
           | Some ord \<Rightarrow>
               if user_id ord \<noteq> uid u \<and> \<not> is_admin u then Inl Unauthorized
               else if status ord \<noteq> ''placed'' \<and> status ord \<noteq> ''packed''
               then Inl NotCancellable
               else
                 (let ord' = ord\<lparr>status := ''cancelled'',
                                  payment_status :=
                                    (if payment_status ord = ''paid''
                                     then ''refunded'' else ''cancelled'')\<rparr>
                  in Inr (db\<lparr>orders := update_order (orders db) i ord',
                              products := restore_stock (products db) (items ord)\<rparr>))))"

text \<open>The POST branch of \<^verbatim>\<open>admin_orders\<close>: any status string is assigned.\<close>

definition admin_orders ::
  "database \<Rightarrow> user option \<Rightarrow> int \<Rightarrow> string \<Rightarrow> datetime \<Rightarrow> string \<Rightarrow> error + database" where
  "admin_orders db current_user i new_status now rnd =
     (case current_user of
        None \<Rightarrow> Inl AdminRequired
      | Some u \<Rightarrow>
          if \<not> is_admin u then Inl AdminRequired
          else
            (case get_order db i of
               None \<Rightarrow> Inl NotFound
             | Some ord \<Rightarrow>
                 (let o1 = ord\<lparr>status := new_status\<rparr>;
                      fresh = (new_status = ''shipped'' \<and> \<not> truthy (tracking_code o1));
                      o2 = (if fresh
                            then o1\<lparr>tracking_code := Some (generate_tracking_code rnd)\<rparr>
                            else o1);
                      o3 = (if new_status = ''delivered''
                            then o2\<lparr>delivered_at := Some now, payment_status := ''paid''\<rparr>
                            else o2)
                  in if fresh \<and> tracking_code_taken (orders db) (generate_tracking_code rnd)
                     then Inl IntegrityError
                     else Inr (db\<lparr>orders := update_order (orders db) i o3\<rparr>))))"

text \<open>\<^verbatim>\<open>Order.recalc_total\<close> of \<^verbatim>\<open>models.py\<close>.\<close>

definition recalc_total :: "order \<Rightarrow> order" where
  "recalc_total ord =
     (let s = sum_list (map (\<lambda>it. of_int (quantity it) * unit_price it) (items ord))
      in ord\<lparr>subtotal := s, total := s + tax ord + shipping ord - discount ord\<rparr>)"

subsection \<open>The store as a whole\<close>

text \<open>The database together with the sessions of the clients, and the requests of the
  cart, checkout and order routes. A request that is refused leaves everything as it
  was.\<close>

record world =
  db :: database
  sessions :: "nat \<Rightarrow> session"

datatype request =
    CartAdd nat int int
  | CartUpdate nat "(cart_key \<times> int) list"
  | CartRemove nat int
  | CartCoupon nat string datetime
  | CartCouponRemove nat
  | Checkout nat "user option" "checkout_form option" datetime string string string
  | OrderCancel "user option" int
  | AdminOrders "user option" int string datetime string

fun handle :: "world \<Rightarrow> request \<Rightarrow> world" where
  "handle w (CartAdd sid p q) =
     (case cart_add (db w) (sessions w sid) p q of
        Inl e \<Rightarrow> w
      | Inr s \<Rightarrow> w\<lparr>sessions := (sessions w)(sid := s)\<rparr>)"
| "handle w (CartUpdate sid form) =
     w\<lparr>sessions := (sessions w)(sid := cart_update (db w) (sessions w sid) form)\<rparr>"
| "handle w (CartRemove sid p) =
     w\<lparr>sessions := (sessions w)(sid := cart_remove (sessions w sid) p)\<rparr>"
| "handle w (CartCoupon sid cc now) =
     (case cart_coupon (db w) (sessions w sid) cc now of
        Inl e \<Rightarrow> w
      | Inr s \<Rightarrow> w\<lparr>sessions := (sessions w)(sid := s)\<rparr>)"
| "handle w (CartCouponRemove sid) =
     w\<lparr>sessions := (sessions w)(sid := cart_coupon_remove (sessions w sid))\<rparr>"
| "handle w (Checkout sid u form now ts rn rt) =
     (case checkout (db w) (sessions w sid) u form now ts rn rt of
        Inl e \<Rightarrow> w
      | Inr (d, s, ord) \<Rightarrow> w\<lparr>db := d, sessions := (sessions w)(sid := s)\<rparr>)"
| "handle w (OrderCancel u i) =
     (case order_cancel (db w) u i of
        Inl e \<Rightarrow> w
      | Inr d \<Rightarrow> w\<lparr>db := d\<rparr>)"
| "handle w (AdminOrders u i st now rnd) =
     (case admin_orders (db w) u i st now rnd of
        Inl e \<Rightarrow> w
      | Inr d \<Rightarrow> w\<lparr>db := d\<rparr>)"

definition run :: "world \<Rightarrow> request list \<Rightarrow> world" where
  "run w reqs = foldl handle w reqs"

subsection \<open>Reading the results\<close>

text \<open>The components of the tuple \<^verbatim>\<open>cart_items\<close> returns.\<close>

definition items_of :: "cart_line list \<times> money \<times> money \<times> money \<times> money \<times> money \<Rightarrow> cart_line list" where
  "items_of r = fst r"

definition subtotal_of :: "cart_line list \<times> money \<times> money \<times> money \<times> money \<times> money \<Rightarrow> money" where
  "subtotal_of r = fst (snd r)"

definition tax_of :: "cart_line list \<times> money \<times> money \<times> money \<times> money \<times> money \<Rightarrow> money" where
  "tax_of r = fst (snd (snd r))"

definition shipping_of :: "cart_line list \<times> money \<times> money \<times> money \<times> money \<times> money \<Rightarrow> money" where
  "shipping_of r = fst (snd (snd (snd r)))"

definition discount_of :: "cart_line list \<times> money \<times> money \<times> money \<times> money \<times> money \<Rightarrow> money" where
  "discount_of r = fst (snd (snd (snd (snd r))))"

definition grand_total_of :: "cart_line list \<times> money \<times> money \<times> money \<times> money \<times> money \<Rightarrow> money" where
  "grand_total_of r = snd (snd (snd (snd (snd r))))"

text \<open>The components of a successful checkout; a refused checkout leaves the database
  and the session as they were and inserts no order.\<close>

definition placed :: "error + (database \<times> session \<times> order) \<Rightarrow> bool" where
  "placed r = (\<not> isl r)"

definition database_after :: "error + (database \<times> session \<times> order) \<Rightarrow> database" where
  "database_after r = fst (projr r)"

definition order_placed :: "error + (database \<times> session \<times> order) \<Rightarrow> order" where
  "order_placed r = snd (snd (projr r))"

text \<open>Columns of a product row that may be absent.\<close>

definition stock_at :: "database \<Rightarrow> int \<Rightarrow> int option" where
  "stock_at d p = map_option stock (products d p)"

definition sold_count_at :: "database \<Rightarrow> int \<Rightarrow> int option" where
  "sold_count_at d p = map_option sold_count (products d p)"

definition used_count_at :: "database \<Rightarrow> string \<Rightarrow> int option" where
  "used_count_at d k = map_option used_count (coupons d k)"

text \<open>A product a cart line is priced for (line 245).\<close>

definition available :: "(int \<rightharpoonup> product) \<Rightarrow> int \<Rightarrow> bool" where
  "available ps p = (case ps p of None \<Rightarrow> False | Some pr \<Rightarrow> is_active pr \<and> 0 < stock pr)"

text \<open>The quantity an order holds of a product: the sum over its lines.\<close>

definition ordered_quantity :: "order_item list \<Rightarrow> int \<Rightarrow> int" where
  "ordered_quantity its p = sum_list (map quantity (filter (\<lambda>it. product_id it = p) its))"

subsection \<open>The invariant of the store\<close>

text \<open>No product has a negative stock, and no cart and no order line holds a negative
  quantity.\<close>

definition stock_nonneg :: "(int \<rightharpoonup> product) \<Rightarrow> bool" where
  "stock_nonneg ps = (\<forall>p pr. ps p = Some pr \<longrightarrow> 0 \<le> stock pr)"

definition quantities_nonneg :: "(cart_key \<times> int) list \<Rightarrow> bool" where
  "quantities_nonneg c = (\<forall>kv \<in> set c. 0 \<le> snd kv)"

definition items_nonneg :: "order_item list \<Rightarrow> bool" where
  "items_nonneg its = (\<forall>it \<in> set its. 0 \<le> quantity it)"

definition order_quantities_nonneg :: "order list \<Rightarrow> bool" where
  "order_quantities_nonneg os = (\<forall>r \<in> set os. items_nonneg (items r))"

definition cart_quantities_nonneg :: "(nat \<Rightarrow> session) \<Rightarrow> bool" where
  "cart_quantities_nonneg ss = (\<forall>sid. quantities_nonneg (session_cart (ss sid)))"

definition consistent :: "world \<Rightarrow> bool" where
  "consistent w =
     (stock_nonneg (products (db w))
      \<and> order_quantities_nonneg (orders (db w))
      \<and> cart_quantities_nonneg (sessions w))"

subsection \<open>The specification's formulas\<close>

text \<open>The specification's \<^verbatim>\<open>reserveQuantity\<close>: \<open>min(requestedQty, currentStock, 1)\<close>.\<close>

definition spec_reserve_quantity :: "int \<Rightarrow> int \<Rightarrow> int" where
  "spec_reserve_quantity requested current_stock = min requested (min current_stock 1)"


text \<open>The specification's coupon validator (section 4.2), its four checks in order.\<close>

definition spec_validate :: "coupon option \<Rightarrow> money \<Rightarrow> datetime \<Rightarrow> error option" where
  "spec_validate co sub now =
     (case co of
        None \<Rightarrow> Some InvalidCoupon
      | Some c \<Rightarrow>
          if \<not> coupon_is_active c then Some InvalidCoupon
          else if now < valid_from c \<or> valid_until c < now then Some CouponExpired
          else if (case usage_limit c of None \<Rightarrow> False | Some l \<Rightarrow> l \<le> used_count c)
          then Some UsageLimitReached
          else if sub < min_purchase c then Some MinimumPurchaseNotMet
          else None)"

subsection \<open>A small store\<close>

definition car_a :: product where
  "car_a = \<lparr>name = ''Car A'', sku = ''A-1'', price = 100, stock = 5, sold_count = 0,
             is_active = True\<rparr>"

definition car_b :: product where
  "car_b = \<lparr>name = ''Car B'', sku = ''B-1'', price = 250, stock = 3, sold_count = 0,
             is_active = True\<rparr>"

definition ten_percent :: coupon where
  "ten_percent =
     \<lparr>code = ''TEN'', discount_type = ''percentage'', discount_value = 10,
      min_purchase = 0, max_discount = None, usage_limit = Some 1, used_count = 1,
      valid_from = 0, valid_until = 100, coupon_is_active = True\<rparr>"

definition half_off :: coupon where
  "half_off =
     \<lparr>code = ''HALF'', discount_type = ''percentage'', discount_value = 50,
      min_purchase = 0, max_discount = Some 0, usage_limit = None, used_count = 0,
      valid_from = 0, valid_until = 100, coupon_is_active = True\<rparr>"

definition capped_half :: coupon where
  "capped_half =
     \<lparr>code = ''CAPPED'', discount_type = ''percentage'', discount_value = 50,
      min_purchase = 0, max_discount = Some 100, usage_limit = Some 10, used_count = 2,
      valid_from = 0, valid_until = 100, coupon_is_active = True\<rparr>"

definition double_off :: coupon where
  "double_off =
     \<lparr>code = ''DOUBLE'', discount_type = ''percentage'', discount_value = 200,
      min_purchase = 0, max_discount = Some 1000, usage_limit = None, used_count = 0,
      valid_from = 0, valid_until = 100, coupon_is_active = True\<rparr>"

definition home :: address where
  "home =
     \<lparr>address_id = 1, address_user_id = 7, address_name = ''Asha'', mobile = ''900'',
      address_line1 = ''1 Main Road'', address_line2 = None, city = ''Pune'',
      state = ''MH'', pincode = ''411001'', country = ''India'', is_default = False\<rparr>"

definition shop :: database where
  "shop =
     \<lparr>products = [1 \<mapsto> car_a, 2 \<mapsto> car_b],
      coupons = [''TEN'' \<mapsto> ten_percent, ''HALF'' \<mapsto> half_off, ''DOUBLE'' \<mapsto> double_off,
                 ''CAPPED'' \<mapsto> capped_half],
      orders = [],
      addresses = [home]\<rparr>"

definition asha :: user where
  "asha = \<lparr>uid = 7, is_admin = False\<rparr>"

definition cod_form :: checkout_form where
  "cod_form = \<lparr>form_address_id = None, form_payment_method = ''cod'', form_notes = []\<rparr>"

definition basket :: "(cart_key \<times> int) list \<Rightarrow> string option \<Rightarrow> session" where
  "basket c k = \<lparr>session_cart = c, session_coupon_code = k\<rparr>"

definition asha_checkout :: "session \<Rightarrow> error + (database \<times> session \<times> order)" where
  "asha_checkout sess =
     checkout shop sess (Some asha) (Some cod_form) 50 ''20260101120000'' ''4711''
       ''ABCDEFGHJKLM''"

text \<open>The same store with an order already on file (550 of goods, paid by UPI, no
  tracking code yet), an administrator, and a client with an empty session.\<close>

definition earlier_order :: order where
  "earlier_order =
     \<lparr>order_id = 1, user_id = 7, order_number = ''MZ202512310900001111'',
      status = ''placed'', payment_status = ''paid'', payment_method = ''upi'',
      subtotal = 550, tax = 99, shipping = 0, discount = 0, coupon_code = None,
      total = 649, shipping_address = ''Asha, 900'', tracking_code = None,
      estimated_delivery = 0, delivered_at = None, order_notes = [],
      items =
        [\<lparr>product_id = 1, quantity = 2, unit_price = 100, product_name = ''Car A'',
           product_sku = ''A-1''\<rparr>,
         \<lparr>product_id = 2, quantity = 1, unit_price = 250, product_name = ''Car B'',
           product_sku = ''B-1''\<rparr>,
         \<lparr>product_id = 1, quantity = 1, unit_price = 100, product_name = ''Car A'',
           product_sku = ''A-1''\<rparr>]\<rparr>"

definition shop_with_order :: database where
  "shop_with_order = shop\<lparr>orders := [earlier_order]\<rparr>"

definition admin :: user where
  "admin = \<lparr>uid = 1, is_admin = True\<rparr>"

definition opening_day :: world where
  "opening_day = \<lparr>db = shop_with_order, sessions = (\<lambda>sid. basket [] None)\<rparr>"

definition busy_day :: "request list" where
  "busy_day =
     [CartAdd 0 1 4,
      CartUpdate 0 [(str_key 1, 9), (str_key 2, 1)],
      Checkout 0 (Some asha) (Some cod_form) 50 ''20260101120000'' ''4711'' ''ABCDEFGHJKLM'',
      OrderCancel (Some asha) 1,
      AdminOrders (Some admin) 2 ''shipped'' 60 ''NOPQRSTUVWXY'',
      OrderCancel (Some asha) 1]"

text \<open>The small store with no client yet, and a client who posts the form fields
  \<^verbatim>\<open>qty_1 = 4\<close> and \<^verbatim>\<open>qty_01 = 4\<close> to \<^verbatim>\<open>/cart/update\<close>, applies the coupon HALF and
  checks out.\<close>

definition fresh_shop :: world where
  "fresh_shop = \<lparr>db = shop, sessions = (\<lambda>sid. basket [] None)\<rparr>"

definition two_keys_cart :: "(cart_key \<times> int) list" where
  "two_keys_cart = [(str_key 1, 4), ((1, 1), 4)]"

definition two_keys_checkout :: "request list" where
  "two_keys_checkout =
     [CartUpdate 0 two_keys_cart,
      CartCoupon 0 ''HALF'' 50,
      Checkout 0 (Some asha) (Some cod_form) 50 ''20260101120000'' ''4711'' ''ABCDEFGHJKLM'']"

section \<open>Properties\<close>

subsection \<open>Reading \<^verbatim>\<open>cart_items\<close> and \<^verbatim>\<open>checkout\<close>\<close>

lemmas result_simps = items_of_def subtotal_of_def tax_of_def shipping_of_def discount_of_def grand_total_of_def

lemma cart_items_components:
  "subtotal_of (cart_items d sess now) = sum_list (map line_subtotal (cart_lines (products d) (session_cart sess)))"
  "tax_of (cart_items d sess now) = py_round (subtotal_of (cart_items d sess now) * (18 / 100)) 2"
  "shipping_of (cart_items d sess now) = (if 500 \<le> subtotal_of (cart_items d sess now) then 0 else 50)"
  "discount_of (cart_items d sess now) = session_discount d sess now (subtotal_of (cart_items d sess now))"
  "grand_total_of (cart_items d sess now) =
     subtotal_of (cart_items d sess now) + tax_of (cart_items d sess now)
       + shipping_of (cart_items d sess now) - discount_of (cart_items d sess now)"
  "items_of (cart_items d sess now) = cart_lines (products d) (session_cart sess)"
  by (simp_all add: cart_items_def Let_def result_simps)

lemma checkout_InrD:
  assumes "checkout d sess cu form now ts rn rt = Inr (d', s', ord)"
  shows "\<exists>u f addr.
           cu = Some u \<and> form = Some f
           \<and> items_of (cart_items d sess now) \<noteq> []
           \<and> resolve_shipping_address d u (form_address_id f) = Inr addr
           \<and> \<not> order_number_taken (orders d) (generate_order_number ts rn)
           \<and> \<not> tracking_code_taken (orders d) (generate_tracking_code rt)
           \<and> ord = new_order (next_order_id (orders d)) u f sess now addr
                     (generate_order_number ts rn) (generate_tracking_code rt)
                     (subtotal_of (cart_items d sess now)) (tax_of (cart_items d sess now))
                     (shipping_of (cart_items d sess now)) (discount_of (cart_items d sess now))
                     (grand_total_of (cart_items d sess now))
                     (snd (place_lines (products d) (items_of (cart_items d sess now))))
           \<and> d' = d\<lparr>products := fst (place_lines (products d) (items_of (cart_items d sess now))),
                     coupons := count_coupon_use (coupons d) (session_coupon_code sess),
                     orders := orders d @ [ord]\<rparr>
           \<and> s' = sess\<lparr>session_cart := [], session_coupon_code := None\<rparr>"
proof -
  obtain its sub tx ship disc gt where r: "cart_items d sess now = (its, sub, tx, ship, disc, gt)"
    by (cases "cart_items d sess now") auto
  obtain ps' ois where pl: "place_lines (products d) its = (ps', ois)"
    by (cases "place_lines (products d) its") auto
  from assms r pl show ?thesis
    by (auto simp: checkout_def result_simps Let_def
             split: option.splits sum.splits if_splits)
qed

lemma checkout_placed_fields:
  assumes "checkout d sess cu form now ts rn rt = Inr (d', s', ord)"
  shows "subtotal ord = subtotal_of (cart_items d sess now)"
    and "tax ord = tax_of (cart_items d sess now)"
    and "shipping ord = shipping_of (cart_items d sess now)"
    and "discount ord = discount_of (cart_items d sess now)"
    and "total ord = grand_total_of (cart_items d sess now)"
    and "status ord = ''placed''"
    and "tracking_code ord = Some (generate_tracking_code rt)"
  using checkout_InrD[OF assms] by (auto simp: new_order_def)

lemma checkout_success:
  assumes "items_of (cart_items d sess now) \<noteq> []"
    and "resolve_shipping_address d u (form_address_id f) = Inr addr"
    and "\<not> order_number_taken (orders d) (generate_order_number ts rn)"
    and "\<not> tracking_code_taken (orders d) (generate_tracking_code rt)"
  shows "checkout d sess (Some u) (Some f) now ts rn rt =
     Inr (d\<lparr>products := fst (place_lines (products d) (items_of (cart_items d sess now))),
             coupons := count_coupon_use (coupons d) (session_coupon_code sess),
             orders := orders d @
               [new_order (next_order_id (orders d)) u f sess now addr
                  (generate_order_number ts rn) (generate_tracking_code rt)
                  (subtotal_of (cart_items d sess now)) (tax_of (cart_items d sess now))
                  (shipping_of (cart_items d sess now)) (discount_of (cart_items d sess now))
                  (grand_total_of (cart_items d sess now))
                  (snd (place_lines (products d) (items_of (cart_items d sess now))))]\<rparr>,
          sess\<lparr>session_cart := [], session_coupon_code := None\<rparr>,
          new_order (next_order_id (orders d)) u f sess now addr
            (generate_order_number ts rn) (generate_tracking_code rt)
            (subtotal_of (cart_items d sess now)) (tax_of (cart_items d sess now))
            (shipping_of (cart_items d sess now)) (discount_of (cart_items d sess now))
            (grand_total_of (cart_items d sess now))
            (snd (place_lines (products d) (items_of (cart_items d sess now)))))"
proof -
  obtain its sub tx ship disc gt where r: "cart_items d sess now = (its, sub, tx, ship, disc, gt)"
    by (cases "cart_items d sess now") auto
  obtain ps' ois where pl: "place_lines (products d) its = (ps', ois)"
    by (cases "place_lines (products d) its") auto
  from assms r pl show ?thesis
    by (simp add: checkout_def result_simps Let_def)
qed

lemma session_discount_applied:
  assumes "session_coupon_code sess = Some cc" and "cc \<noteq> []"
    and "active_coupon d cc = Some c"
    and "valid_from c \<le> now" and "now \<le> valid_until c"
  shows "session_discount d sess now sub = coupon_discount c sub"
  using assms by (simp add: session_discount_def)

subsection \<open>Evaluating the small store\<close>

lemmas shop_simps = shop_def car_a_def car_b_def ten_percent_def half_off_def double_off_def
  capped_half_def
  home_def asha_def cod_form_def basket_def str_key_def key_id_def asha_checkout_def

lemma shop_cart_items:
  "cart_items shop (basket [(str_key 1, 2), (str_key 2, 1)] None) 50
     = ([\<lparr>line_product = 1, line_quantity = 2, line_subtotal = 200\<rparr>,
         \<lparr>line_product = 2, line_quantity = 1, line_subtotal = 250\<rparr>], 450, 81, 50, 0, 581)"
  by (simp add: cart_items_def shop_simps session_discount_def py_round_def round_half_even_def Let_def)

lemma shop_default_address:
  "resolve_shipping_address shop asha (form_address_id cod_form)
     = Inr (format_address home)"
  by (simp add: resolve_shipping_address_def default_address_def shop_def asha_def
        cod_form_def home_def)

lemma shop_no_orders: "orders shop = []"
  by (simp add: shop_def)

lemma asha_checkout_placed: "placed (asha_checkout (basket [(str_key 1, 2), (str_key 2, 1)] None))"
  unfolding asha_checkout_def placed_def
  by (subst checkout_success[OF _ shop_default_address])
     (simp_all add: shop_cart_items result_simps shop_no_orders order_number_taken_def
        tracking_code_taken_def)

lemma shop_half_off: "active_coupon shop ''HALF'' = Some half_off"
  by (simp add: active_coupon_def shop_def half_off_def)

lemma shop_cart_subtotal: "subtotal_of (cart_items shop (basket [(str_key 1, 2), (str_key 2, 1)] k) 50) = 450"
  by (simp add: cart_items_components shop_def car_a_def car_b_def basket_def str_key_def key_id_def)

lemma shop_ten_percent: "active_coupon shop ''TEN'' = Some ten_percent"
  by (simp add: active_coupon_def shop_def ten_percent_def)



subsection \<open>The grand total\<close>

text \<open>
  Claim C1. Every pricing result satisfies
  \<open>total = subtotal + tax + shipping - discount\<close>: the tuple \<^verbatim>\<open>cart_items\<close> returns
  for the cart view, the order row a successful checkout inserts (which stores the
  totals of \<^verbatim>\<open>cart_items\<close>), and an order after \<^verbatim>\<open>recalc_total\<close>. The total is the
  discounted goods and tax plus the shipping fee; the fee is 0 from a subtotal of 500 and
  50 below it, the one charged for the same cart without any coupon: it is never
  discounted.
\<close>

theorem grand_total_identity:
  "grand_total_of (cart_items d sess now)
     = subtotal_of (cart_items d sess now) + tax_of (cart_items d sess now)
         + shipping_of (cart_items d sess now) - discount_of (cart_items d sess now)
   \<and> grand_total_of (cart_items d sess now)
     = (subtotal_of (cart_items d sess now) + tax_of (cart_items d sess now)
          - discount_of (cart_items d sess now)) + shipping_of (cart_items d sess now)
   \<and> shipping_of (cart_items d sess now)
     = (if 500 \<le> subtotal_of (cart_items d sess now) then 0 else 50)
   \<and> shipping_of (cart_items d sess now)
     = shipping_of (cart_items d (sess\<lparr>session_coupon_code := None\<rparr>) now)
   \<and> (placed (checkout d sess cu form now ts rn rt) \<longrightarrow>
        total (order_placed (checkout d sess cu form now ts rn rt))
          = subtotal (order_placed (checkout d sess cu form now ts rn rt))
            + tax (order_placed (checkout d sess cu form now ts rn rt))
            + shipping (order_placed (checkout d sess cu form now ts rn rt))
            - discount (order_placed (checkout d sess cu form now ts rn rt))
        \<and> total (order_placed (checkout d sess cu form now ts rn rt))
          = grand_total_of (cart_items d sess now))
   \<and> total (recalc_total ord)
     = subtotal (recalc_total ord) + tax (recalc_total ord)
         + shipping (recalc_total ord) - discount (recalc_total ord)"
proof -
  have ship: "shipping_of (cart_items d sess now)
     = shipping_of (cart_items d (sess\<lparr>session_coupon_code := None\<rparr>) now)"
    by (simp add: cart_items_components)
  have co: "placed (checkout d sess cu form now ts rn rt) \<longrightarrow>
        total (order_placed (checkout d sess cu form now ts rn rt))
          = subtotal (order_placed (checkout d sess cu form now ts rn rt))
            + tax (order_placed (checkout d sess cu form now ts rn rt))
            + shipping (order_placed (checkout d sess cu form now ts rn rt))
            - discount (order_placed (checkout d sess cu form now ts rn rt))
        \<and> total (order_placed (checkout d sess cu form now ts rn rt))
          = grand_total_of (cart_items d sess now)"
  proof
    assume "placed (checkout d sess cu form now ts rn rt)"
    then obtain d' s' ord' where r: "checkout d sess cu form now ts rn rt = Inr (d', s', ord')"
      by (cases "checkout d sess cu form now ts rn rt") (auto simp: placed_def)
    show "total (order_placed (checkout d sess cu form now ts rn rt))
          = subtotal (order_placed (checkout d sess cu form now ts rn rt))
            + tax (order_placed (checkout d sess cu form now ts rn rt))
            + shipping (order_placed (checkout d sess cu form now ts rn rt))
            - discount (order_placed (checkout d sess cu form now ts rn rt))
        \<and> total (order_placed (checkout d sess cu form now ts rn rt))
          = grand_total_of (cart_items d sess now)"
      using checkout_placed_fields(1-5)[OF r]
      by (simp add: r order_placed_def cart_items_components(5))
  qed
  have rc: "total (recalc_total ord)
     = subtotal (recalc_total ord) + tax (recalc_total ord)
         + shipping (recalc_total ord) - discount (recalc_total ord)"
    by (simp add: recalc_total_def Let_def)
  have sum1: "grand_total_of (cart_items d sess now)
     = subtotal_of (cart_items d sess now) + tax_of (cart_items d sess now)
         + shipping_of (cart_items d sess now) - discount_of (cart_items d sess now)"
    by (rule cart_items_components(5))
  have sum2: "grand_total_of (cart_items d sess now)
     = (subtotal_of (cart_items d sess now) + tax_of (cart_items d sess now)
          - discount_of (cart_items d sess now)) + shipping_of (cart_items d sess now)"
    by (simp add: cart_items_components(5))
  have fee: "shipping_of (cart_items d sess now)
     = (if 500 \<le> subtotal_of (cart_items d sess now) then 0 else 50)"
    by (rule cart_items_components(3))
  from sum1 sum2 fee ship co rc show ?thesis
    by blast
qed

text \<open>The identity at the specification's end-to-end scenario: two of product A at
  100.00 and one of product B at 250.00, no coupon, gives 450 + 81 + 50 - 0 = 581.\<close>

theorem grand_total_identity_witness:
  "placed (asha_checkout (basket [(str_key 1, 2), (str_key 2, 1)] None))
   \<and> total (order_placed (asha_checkout (basket [(str_key 1, 2), (str_key 2, 1)] None))) = 581
   \<and> grand_total_of (cart_items shop (basket [(str_key 1, 2), (str_key 2, 1)] None) 50) = 450 + 81 + 50 - 0"
proof -
  have p: "placed (asha_checkout (basket [(str_key 1, 2), (str_key 2, 1)] None))"
    by (rule asha_checkout_placed)
  have "placed (asha_checkout (basket [(str_key 1, 2), (str_key 2, 1)] None)) \<longrightarrow>
        total (order_placed (asha_checkout (basket [(str_key 1, 2), (str_key 2, 1)] None)))
          = grand_total_of (cart_items shop (basket [(str_key 1, 2), (str_key 2, 1)] None) 50)"
    unfolding asha_checkout_def
    using grand_total_identity[of shop "basket [(str_key 1, 2), (str_key 2, 1)] None" 50 "Some asha"
        "Some cod_form" "''20260101120000''" "''4711''" "''ABCDEFGHJKLM''"]
    by blast
  with p have "total (order_placed (asha_checkout (basket [(str_key 1, 2), (str_key 2, 1)] None)))
          = grand_total_of (cart_items shop (basket [(str_key 1, 2), (str_key 2, 1)] None) 50)"
    by blast
  with p show ?thesis
    by (simp add: shop_cart_items result_simps)
qed

subsection \<open>Coupon discounts\<close>

text \<open>
  Claim C10. For a percentage coupon whose \<^verbatim>\<open>max_discount\<close> is exactly 0 the pricing
  code reads the cap as absent: the discount is
  \<open>min (subtotal * discount_value / 100) subtotal\<close>, both in the formula of lines 260
  to 261 and in the discount \<^verbatim>\<open>cart_items\<close> returns for a session whose coupon passes
  the checks of lines 258 and 259.
\<close>

theorem zero_cap_counts_as_no_cap:
  assumes "discount_type c = ''percentage''" and "max_discount c = Some 0"
  shows "coupon_discount c sub = min (sub * discount_value c / 100) sub
    \<and> (session_coupon_code sess = Some cc \<and> cc \<noteq> [] \<and> active_coupon d cc = Some c
         \<and> valid_from c \<le> now \<and> now \<le> valid_until c \<longrightarrow>
       discount_of (cart_items d sess now)
         = min (subtotal_of (cart_items d sess now) * discount_value c / 100)
               (subtotal_of (cart_items d sess now)))"
proof -
  have cap: "py_or (max_discount c) x = x" for x
    using assms(2) by (simp add: py_or_def)
  have formula: "coupon_discount c x = min (x * discount_value c / 100) x" for x
    using assms(1) by (simp add: coupon_discount_def cap)
  show ?thesis
    by (simp add: formula cart_items_components(4) session_discount_applied)
qed

text \<open>A 50 percent coupon with a zero cap takes 225 off a subtotal of 450, not 0.\<close>

theorem zero_cap_counts_as_no_cap_witness:
  "discount_type half_off = ''percentage'' \<and> max_discount half_off = Some 0
   \<and> coupon_discount half_off 450 = 225
   \<and> discount_of (cart_items shop (basket [(str_key 1, 2), (str_key 2, 1)] (Some ''HALF'')) 50) = 225"
proof -
  have t: "discount_type half_off = ''percentage''" and m: "max_discount half_off = Some 0"
    by (simp_all add: half_off_def)
  have v: "discount_value half_off = 50" "valid_from half_off \<le> 50" "50 \<le> valid_until half_off"
    by (simp_all add: half_off_def)
  have s: "session_coupon_code (basket [(str_key 1, 2), (str_key 2, 1)] (Some ''HALF'')) = Some ''HALF''"
    by (simp add: basket_def str_key_def key_id_def)
  from zero_cap_counts_as_no_cap[OF t m, of 450 "basket [(str_key 1, 2), (str_key 2, 1)] (Some ''HALF'')"
      "''HALF''" shop 50] shop_half_off v s
  have "coupon_discount half_off 450 = 225
    \<and> discount_of (cart_items shop (basket [(str_key 1, 2), (str_key 2, 1)] (Some ''HALF'')) 50) = 225"
    by (simp add: shop_cart_subtotal)
  with t m show ?thesis by blast
qed







subsection \<open>Priced quantities\<close>

lemma cart_lines_priced:
  "list_all2
     (\<lambda>kv l. line_product l = key_id (fst kv)
        \<and> (\<exists>pr. ps (key_id (fst kv)) = Some pr \<and> is_active pr \<and> 0 < stock pr
              \<and> line_quantity l = min (snd kv) (stock pr)
              \<and> line_quantity l \<le> stock pr
              \<and> line_subtotal l = of_int (line_quantity l) * price pr))
     (filter (\<lambda>kv. available ps (key_id (fst kv))) c)
     (cart_lines ps c)"
proof (induction c)
  case Nil
  show ?case by simp
next
  case (Cons kv c)
  obtain k q where kv: "kv = (k, q)" by (cases kv)
  show ?case
  proof (cases "ps (key_id k)")
    case None
    with Cons kv show ?thesis by (simp add: available_def)
  next
    case (Some pr)
    with Cons kv show ?thesis by (simp add: available_def)
  qed
qed

text \<open>
  Claim C7, as the code has it. The priced lines are, in order, the cart lines over
  products that exist, are active and have stock above zero; every other line is left
  out. Each priced line carries the quantity \<open>min requested stock\<close> (there is no
  further cap of 1), which never exceeds the stock, and the line subtotal is that
  quantity times the product's price.
\<close>

theorem priced_quantity_is_request_capped_by_stock:
  "list_all2
     (\<lambda>kv l. line_product l = key_id (fst kv)
        \<and> (\<exists>pr. products d (key_id (fst kv)) = Some pr \<and> is_active pr \<and> 0 < stock pr
              \<and> line_quantity l = min (snd kv) (stock pr)
              \<and> line_quantity l \<le> stock pr
              \<and> line_subtotal l = of_int (line_quantity l) * price pr))
     (filter (\<lambda>kv. available (products d) (key_id (fst kv))) (session_cart sess))
     (items_of (cart_items d sess now))"
  unfolding cart_items_components(6) by (rule cart_lines_priced)

text \<open>A request of 7 against a stock of 5 is priced at 5, a request of 2 against a stock
  of 3 at 2, and the line over the unknown product 9 is left out.\<close>

theorem priced_quantity_is_request_capped_by_stock_witness:
  "filter (\<lambda>kv. available (products shop) (key_id (fst kv)))
       [(str_key 1, 7), (str_key 9, 1), (str_key 2, 2)]
     = [(str_key 1, 7), (str_key 2, 2)]
   \<and> map line_quantity
         (items_of (cart_items shop
            (basket [(str_key 1, 7), (str_key 9, 1), (str_key 2, 2)] None) 50))
       = [min 7 (stock car_a), min 2 (stock car_b)]"
proof -
  have f: "filter (\<lambda>kv. available (products shop) (key_id (fst kv)))
               [(str_key 1, 7), (str_key 9, 1), (str_key 2, 2)]
             = [(str_key 1, 7), (str_key 2, 2)]"
    by (simp add: available_def shop_def car_a_def car_b_def str_key_def key_id_def)
  have p: "products shop (key_id (str_key 1)) = Some car_a"
      "products shop (key_id (str_key 2)) = Some car_b"
    by (simp_all add: shop_def str_key_def key_id_def)
  have s: "session_cart (basket [(str_key 1, 7), (str_key 9, 1), (str_key 2, 2)] None)
             = [(str_key 1, 7), (str_key 9, 1), (str_key 2, 2)]"
    by (simp add: basket_def)
  from priced_quantity_is_request_capped_by_stock[of shop
      "basket [(str_key 1, 7), (str_key 9, 1), (str_key 2, 2)] None" 50]
  have "map line_quantity
         (items_of (cart_items shop
            (basket [(str_key 1, 7), (str_key 9, 1), (str_key 2, 2)] None) 50))
       = [min 7 (stock car_a), min 2 (stock car_b)]"
    unfolding s f by (auto simp: list_all2_Cons1 p)
  with f show ?thesis by blast
qed

text \<open>Against claim C7 as stated: a request of 2 against a stock of 5 is priced at 2,
  where \<open>min requested stock 1\<close> is 1.\<close>

theorem reserve_quantity_counterexample:
  "products shop 1 = Some car_a \<and> is_active car_a \<and> stock car_a = 5
   \<and> map line_quantity (items_of (cart_items shop (basket [(str_key 1, 2)] None) 50)) = [2]
   \<and> spec_reserve_quantity 2 (stock car_a) = 1"
  by (simp add: cart_items_components(6) shop_def basket_def str_key_def key_id_def car_a_def spec_reserve_quantity_def)

subsection \<open>Coupon validation at pricing time\<close>

lemma shop_ten_percent_discount:
  "discount_of (cart_items shop (basket [(str_key 1, 2), (str_key 2, 1)] (Some ''TEN'')) 50) = 45"
proof -
  have "session_discount shop (basket [(str_key 1, 2), (str_key 2, 1)] (Some ''TEN'')) 50 450
          = coupon_discount ten_percent 450"
    by (rule session_discount_applied[OF _ _ shop_ten_percent])
       (simp_all add: basket_def str_key_def key_id_def ten_percent_def)
  then show ?thesis
    by (simp add: cart_items_components(4) shop_cart_subtotal coupon_discount_def py_or_def
          ten_percent_def)
qed

lemma shop_cart_lines:
  "items_of (cart_items shop (basket [(str_key 1, 2), (str_key 2, 1)] k) 50)
     = [\<lparr>line_product = 1, line_quantity = 2, line_subtotal = 200\<rparr>,
        \<lparr>line_product = 2, line_quantity = 1, line_subtotal = 250\<rparr>]"
  by (simp add: cart_items_components(6) shop_def basket_def str_key_def key_id_def car_a_def car_b_def)

lemma asha_checkout_result:
  assumes "items_of (cart_items shop b 50) \<noteq> []"
  shows "asha_checkout b =
     Inr (shop\<lparr>products := fst (place_lines (products shop) (items_of (cart_items shop b 50))),
             coupons := count_coupon_use (coupons shop) (session_coupon_code b),
             orders := orders shop @
               [new_order (next_order_id (orders shop)) asha cod_form b 50 (format_address home)
                  (generate_order_number ''20260101120000'' ''4711'')
                  (generate_tracking_code ''ABCDEFGHJKLM'')
                  (subtotal_of (cart_items shop b 50)) (tax_of (cart_items shop b 50))
                  (shipping_of (cart_items shop b 50)) (discount_of (cart_items shop b 50))
                  (grand_total_of (cart_items shop b 50))
                  (snd (place_lines (products shop) (items_of (cart_items shop b 50))))]\<rparr>,
          b\<lparr>session_cart := [], session_coupon_code := None\<rparr>,
          new_order (next_order_id (orders shop)) asha cod_form b 50 (format_address home)
            (generate_order_number ''20260101120000'' ''4711'')
            (generate_tracking_code ''ABCDEFGHJKLM'')
            (subtotal_of (cart_items shop b 50)) (tax_of (cart_items shop b 50))
            (shipping_of (cart_items shop b 50)) (discount_of (cart_items shop b 50))
            (grand_total_of (cart_items shop b 50))
            (snd (place_lines (products shop) (items_of (cart_items shop b 50)))))"
  unfolding asha_checkout_def
  by (rule checkout_success[OF assms shop_default_address])
     (simp_all add: shop_no_orders order_number_taken_def tracking_code_taken_def)

text \<open>
  Claim C6 at a coupon with \<^verbatim>\<open>usage_limit = 1\<close> and \<^verbatim>\<open>used_count = 1\<close> that is still in
  the session. The specification's validator and the route \<^verbatim>\<open>cart_coupon\<close> both reject it
  with \<open>UsageLimitReached\<close>; \<^verbatim>\<open>cart_items\<close> checks only \<^verbatim>\<open>is_active\<close> and the validity
  window, so the cart view shows a discount of 45 on 450, the checkout stores that
  discount in the order and raises \<^verbatim>\<open>used_count\<close> to 2.
\<close>

theorem exhausted_coupon_still_discounts:
  "usage_limit ten_percent = Some 1 \<and> used_count ten_percent = 1
   \<and> spec_validate (coupons shop ''TEN'') 450 50 = Some UsageLimitReached
   \<and> cart_coupon shop (basket [(str_key 1, 2), (str_key 2, 1)] None) ''TEN'' 50 = Inl UsageLimitReached
   \<and> subtotal_of (cart_items shop (basket [(str_key 1, 2), (str_key 2, 1)] (Some ''TEN'')) 50) = 450
   \<and> discount_of (cart_items shop (basket [(str_key 1, 2), (str_key 2, 1)] (Some ''TEN'')) 50) = 45
   \<and> placed (asha_checkout (basket [(str_key 1, 2), (str_key 2, 1)] (Some ''TEN'')))
   \<and> discount (order_placed (asha_checkout (basket [(str_key 1, 2), (str_key 2, 1)] (Some ''TEN'')))) = 45
   \<and> used_count_at (database_after (asha_checkout (basket [(str_key 1, 2), (str_key 2, 1)] (Some ''TEN''))))
        ''TEN'' = Some 2"
proof -
  have a: "usage_limit ten_percent = Some 1 \<and> used_count ten_percent = 1"
    by (simp add: ten_percent_def)
  have b: "spec_validate (coupons shop ''TEN'') 450 50 = Some UsageLimitReached"
    by (simp add: spec_validate_def shop_def ten_percent_def)
  have c: "cart_coupon shop (basket [(str_key 1, 2), (str_key 2, 1)] None) ''TEN'' 50 = Inl UsageLimitReached"
    by (simp add: cart_coupon_def shop_ten_percent usage_limit_reached_def ten_percent_def)
  have ne: "items_of (cart_items shop (basket [(str_key 1, 2), (str_key 2, 1)] (Some ''TEN'')) 50) \<noteq> []"
    by (simp add: shop_cart_lines)
  note r = asha_checkout_result[OF ne]
  have d: "placed (asha_checkout (basket [(str_key 1, 2), (str_key 2, 1)] (Some ''TEN'')))"
    by (simp add: r placed_def)
  have e: "discount (order_placed (asha_checkout (basket [(str_key 1, 2), (str_key 2, 1)] (Some ''TEN'')))) = 45"
    by (simp add: r order_placed_def new_order_def shop_ten_percent_discount)
  have f: "used_count_at (database_after (asha_checkout (basket [(str_key 1, 2), (str_key 2, 1)] (Some ''TEN''))))
        ''TEN'' = Some 2"
    by (simp add: r database_after_def used_count_at_def)
       (simp add: count_coupon_use_def basket_def str_key_def key_id_def shop_def ten_percent_def)
  from a b c d e f shop_cart_subtotal shop_ten_percent_discount show ?thesis
    by blast
qed

subsection \<open>Tracking codes\<close>

lemma find_update_order:
  assumes "find (\<lambda>r. order_id r = i) os = Some ord" and "order_id new = i"
  shows "find (\<lambda>r. order_id r = i) (update_order os i new) = Some new"
  using assms by (induction os) (auto split: if_splits)

lemma get_order_update:
  assumes "get_order d i = Some ord" and "order_id new = i"
  shows "get_order (d\<lparr>orders := update_order (orders d) i new\<rparr>) i = Some new"
  using assms by (simp add: get_order_def find_update_order)

lemma get_order_id: "get_order d i = Some ord \<Longrightarrow> order_id ord = i"
  by (auto simp: get_order_def find_Some_iff)

lemma admin_orders_InrD:
  assumes "admin_orders d cu i st now rnd = Inr d'" and "get_order d i = Some ord"
  shows "d' = d\<lparr>orders := update_order (orders d) i
                 (ord\<lparr>status := st,
                       tracking_code :=
                         (if st = ''shipped'' \<and> \<not> truthy (tracking_code ord)
                          then Some (generate_tracking_code rnd) else tracking_code ord),
                       delivered_at :=
                         (if st = ''delivered'' then Some now else delivered_at ord),
                       payment_status :=
                         (if st = ''delivered'' then ''paid'' else payment_status ord)\<rparr>)\<rparr>"
  using assms
  by (auto simp: admin_orders_def Let_def split: option.splits if_splits)

lemma shop_with_order_get: "get_order shop_with_order 1 = Some earlier_order"
  by (simp add: get_order_def shop_with_order_def earlier_order_def)

lemma shop_with_order_shipped:
  "admin_orders shop_with_order (Some admin) 1 ''shipped'' 60 ''NOPQRSTUVWXY''
     = Inr (shop_with_order\<lparr>orders :=
              [earlier_order\<lparr>status := ''shipped'',
                             tracking_code := Some ''MZ-NOPQRSTUVWXY''\<rparr>]\<rparr>)"
  by (simp add: admin_orders_def admin_def shop_with_order_get Let_def)
     (simp add: shop_with_order_def earlier_order_def truthy_def tracking_code_taken_def
        generate_tracking_code_def)

text \<open>
  Claim C9, as the code has it. The order a checkout inserts has status \<^verbatim>\<open>placed\<close> and
  already carries a tracking code, the one generated at line 664. A status update by an
  administrator generates a tracking code only when the new status is \<^verbatim>\<open>shipped\<close> and the
  order has none (null or empty); in every other case it keeps the code the order has.
\<close>

theorem tracking_code_assigned_at_checkout:
  "(placed (checkout d sess cu form now ts rn rt) \<longrightarrow>
      status (order_placed (checkout d sess cu form now ts rn rt)) = ''placed''
      \<and> tracking_code (order_placed (checkout d sess cu form now ts rn rt))
          = Some (generate_tracking_code rt)
      \<and> truthy (tracking_code (order_placed (checkout d sess cu form now ts rn rt)))
      \<and> orders (database_after (checkout d sess cu form now ts rn rt))
          = orders d @ [order_placed (checkout d sess cu form now ts rn rt)])
   \<and> (get_order d0 i = Some ord \<and> admin_orders d0 au i st now' rnd = Inr d' \<longrightarrow>
        (\<exists>ord'. get_order d' i = Some ord' \<and> status ord' = st
           \<and> tracking_code ord'
               = (if st = ''shipped'' \<and> \<not> truthy (tracking_code ord)
                  then Some (generate_tracking_code rnd) else tracking_code ord)))"
proof -
  have co: "placed (checkout d sess cu form now ts rn rt) \<longrightarrow>
      status (order_placed (checkout d sess cu form now ts rn rt)) = ''placed''
      \<and> tracking_code (order_placed (checkout d sess cu form now ts rn rt))
          = Some (generate_tracking_code rt)
      \<and> truthy (tracking_code (order_placed (checkout d sess cu form now ts rn rt)))
      \<and> orders (database_after (checkout d sess cu form now ts rn rt))
          = orders d @ [order_placed (checkout d sess cu form now ts rn rt)]"
  proof
    assume "placed (checkout d sess cu form now ts rn rt)"
    then obtain d1 s1 ord1 where r: "checkout d sess cu form now ts rn rt = Inr (d1, s1, ord1)"
      by (cases "checkout d sess cu form now ts rn rt") (auto simp: placed_def)
    from checkout_InrD[OF r] have "orders d1 = orders d @ [ord1]"
      by auto
    with checkout_placed_fields(6,7)[OF r]
    show "status (order_placed (checkout d sess cu form now ts rn rt)) = ''placed''
      \<and> tracking_code (order_placed (checkout d sess cu form now ts rn rt))
          = Some (generate_tracking_code rt)
      \<and> truthy (tracking_code (order_placed (checkout d sess cu form now ts rn rt)))
      \<and> orders (database_after (checkout d sess cu form now ts rn rt))
          = orders d @ [order_placed (checkout d sess cu form now ts rn rt)]"
      by (simp add: r order_placed_def database_after_def truthy_def generate_tracking_code_def)
  qed
  have ad: "get_order d0 i = Some ord \<and> admin_orders d0 au i st now' rnd = Inr d' \<longrightarrow>
        (\<exists>ord'. get_order d' i = Some ord' \<and> status ord' = st
           \<and> tracking_code ord'
               = (if st = ''shipped'' \<and> \<not> truthy (tracking_code ord)
                  then Some (generate_tracking_code rnd) else tracking_code ord))"
  proof
    assume h: "get_order d0 i = Some ord \<and> admin_orders d0 au i st now' rnd = Inr d'"
    then have g: "get_order d0 i = Some ord" and a: "admin_orders d0 au i st now' rnd = Inr d'"
      by blast+
    let ?new = "ord\<lparr>status := st,
                       tracking_code :=
                         (if st = ''shipped'' \<and> \<not> truthy (tracking_code ord)
                          then Some (generate_tracking_code rnd) else tracking_code ord),
                       delivered_at :=
                         (if st = ''delivered'' then Some now' else delivered_at ord),
                       payment_status :=
                         (if st = ''delivered'' then ''paid'' else payment_status ord)\<rparr>"
    have "order_id ?new = i" using get_order_id[OF g] by simp
    from get_order_update[OF g this] admin_orders_InrD[OF a g]
    have "get_order d' i = Some ?new" by simp
    then show "\<exists>ord'. get_order d' i = Some ord' \<and> status ord' = st
           \<and> tracking_code ord'
               = (if st = ''shipped'' \<and> \<not> truthy (tracking_code ord)
                  then Some (generate_tracking_code rnd) else tracking_code ord)"
      by simp
  qed
  from co ad show ?thesis by blast
qed

text \<open>A checkout in the small store, and the order on file, which has no tracking code
  until it is shipped.\<close>

theorem tracking_code_assigned_at_checkout_witness:
  "placed (asha_checkout (basket [(str_key 1, 2), (str_key 2, 1)] None))
   \<and> status (order_placed (asha_checkout (basket [(str_key 1, 2), (str_key 2, 1)] None))) = ''placed''
   \<and> tracking_code (order_placed (asha_checkout (basket [(str_key 1, 2), (str_key 2, 1)] None)))
       = Some ''MZ-ABCDEFGHJKLM''
   \<and> get_order shop_with_order 1 = Some earlier_order
   \<and> tracking_code earlier_order = None
   \<and> (\<exists>ord'. get_order (shop_with_order\<lparr>orders :=
              [earlier_order\<lparr>status := ''shipped'',
                             tracking_code := Some ''MZ-NOPQRSTUVWXY''\<rparr>]\<rparr>) 1 = Some ord'
         \<and> status ord' = ''shipped'' \<and> tracking_code ord' = Some ''MZ-NOPQRSTUVWXY'')"
proof -
  have p: "placed (asha_checkout (basket [(str_key 1, 2), (str_key 2, 1)] None))"
    by (rule asha_checkout_placed)
  have n: "tracking_code earlier_order = None"
    by (simp add: earlier_order_def)
  note t = tracking_code_assigned_at_checkout[of shop "basket [(str_key 1, 2), (str_key 2, 1)] None" "Some asha"
      "Some cod_form" 50 "''20260101120000''" "''4711''" "''ABCDEFGHJKLM''"
      shop_with_order 1 earlier_order "Some admin" "''shipped''" 60 "''NOPQRSTUVWXY''"
      "shop_with_order\<lparr>orders :=
              [earlier_order\<lparr>status := ''shipped'',
                             tracking_code := Some ''MZ-NOPQRSTUVWXY''\<rparr>]\<rparr>"]
  from t p have c: "status (order_placed (asha_checkout (basket [(str_key 1, 2), (str_key 2, 1)] None))) = ''placed''
      \<and> tracking_code (order_placed (asha_checkout (basket [(str_key 1, 2), (str_key 2, 1)] None)))
          = Some ''MZ-ABCDEFGHJKLM''"
    unfolding asha_checkout_def by (simp add: generate_tracking_code_def)
  from t shop_with_order_get shop_with_order_shipped n
  have s: "\<exists>ord'. get_order (shop_with_order\<lparr>orders :=
              [earlier_order\<lparr>status := ''shipped'',
                             tracking_code := Some ''MZ-NOPQRSTUVWXY''\<rparr>]\<rparr>) 1 = Some ord'
         \<and> status ord' = ''shipped'' \<and> tracking_code ord' = Some ''MZ-NOPQRSTUVWXY''"
    by (simp add: truthy_def generate_tracking_code_def)
  from p c shop_with_order_get n s show ?thesis by blast
qed

text \<open>Against claim C9 as stated: the order a checkout has just placed, not yet shipped,
  has a tracking code.\<close>

theorem tracking_code_null_until_shipped_counterexample:
  "placed (asha_checkout (basket [(str_key 1, 2), (str_key 2, 1)] None))
   \<and> status (order_placed (asha_checkout (basket [(str_key 1, 2), (str_key 2, 1)] None))) = ''placed''
   \<and> tracking_code (order_placed (asha_checkout (basket [(str_key 1, 2), (str_key 2, 1)] None)))
       = Some ''MZ-ABCDEFGHJKLM''"
proof -
  have ne: "items_of (cart_items shop (basket [(str_key 1, 2), (str_key 2, 1)] None) 50) \<noteq> []"
    by (simp add: shop_cart_lines)
  note r = asha_checkout_result[OF ne]
  show ?thesis
    by (simp add: r placed_def order_placed_def new_order_def generate_tracking_code_def)
qed

subsection \<open>Cancellation\<close>

lemma ordered_quantity_Cons:
  "ordered_quantity (it # its) p
     = (if product_id it = p then quantity it else 0) + ordered_quantity its p"
  by (simp add: ordered_quantity_def)

lemma restore_stock_adds:
  "map_option stock (restore_stock ps its p)
     = map_option (\<lambda>s. s + ordered_quantity its p) (map_option stock (ps p))"
proof (induction its arbitrary: ps)
  case Nil
  show ?case by (simp add: ordered_quantity_def option.map_comp comp_def option.map_ident)
next
  case (Cons it its)
  show ?case
  proof (cases "ps (product_id it)")
    case None
    then have step: "restore_stock ps (it # its) = restore_stock ps its" by simp
    show ?thesis
      unfolding step Cons using None
      by (cases "product_id it = p") (simp_all add: ordered_quantity_Cons)
  next
    case (Some pr)
    let ?ps' = "ps(product_id it \<mapsto> pr\<lparr>stock := stock pr + quantity it\<rparr>)"
    from Some have step: "restore_stock ps (it # its) = restore_stock ?ps' its" by simp
    have ih: "map_option stock (restore_stock ?ps' its p)
                = map_option (\<lambda>s. s + ordered_quantity its p) (map_option stock (?ps' p))"
      by (rule Cons)
    show ?thesis
    proof (cases "product_id it = p")
      case True
      with Some have a: "map_option stock (?ps' p) = Some (stock pr + quantity it)"
        and b: "map_option stock (ps p) = Some (stock pr)"
        by simp_all
      show ?thesis
        unfolding step ih a b using True by (simp add: ordered_quantity_Cons)
    next
      case False
      then have a: "?ps' p = ps p" by simp
      show ?thesis
        unfolding step ih a using False by (simp add: ordered_quantity_Cons)
    qed
  qed
qed

lemma order_cancel_accepts:
  assumes "get_order d i = Some ord" and "user_id ord = uid u \<or> is_admin u"
    and "status ord = ''placed'' \<or> status ord = ''packed''"
  shows "order_cancel d (Some u) i =
           Inr (d\<lparr>orders := update_order (orders d) i
                     (ord\<lparr>status := ''cancelled'',
                           payment_status :=
                             (if payment_status ord = ''paid''
                              then ''refunded'' else ''cancelled'')\<rparr>),
                   products := restore_stock (products d) (items ord)\<rparr>)"
  using assms by (auto simp: order_cancel_def Let_def)

lemma order_cancel_rejects:
  assumes "get_order d i = Some ord" and "user_id ord = uid u \<or> is_admin u"
    and "status ord \<noteq> ''placed''" and "status ord \<noteq> ''packed''"
  shows "order_cancel d (Some u) i = Inl NotCancellable"
  using assms by (auto simp: order_cancel_def)

lemma opening_day_order: "get_order (db opening_day) 1 = Some earlier_order"
  by (simp add: opening_day_def shop_with_order_get)

text \<open>
  Claim C8. For an order that exists and an actor who owns it or is an administrator:
  if the status is \<^verbatim>\<open>placed\<close> or \<^verbatim>\<open>packed\<close> the cancellation succeeds, the order becomes
  \<^verbatim>\<open>cancelled\<close> with payment status \<^verbatim>\<open>refunded\<close> if it was \<^verbatim>\<open>paid\<close> and \<^verbatim>\<open>cancelled\<close>
  otherwise, and the stock of every product grows by exactly the quantity the order's
  lines hold of it; a second cancellation is then refused and changes nothing. In any
  other status the cancellation is refused with \<open>NotCancellable\<close> and the store is
  unchanged.
\<close>

theorem cancel_restores_stock_once:
  assumes "get_order (db w) i = Some ord" and "user_id ord = uid u \<or> is_admin u"
  shows "(status ord = ''placed'' \<or> status ord = ''packed'' \<longrightarrow>
            order_cancel (db w) (Some u) i = Inr (db (handle w (OrderCancel (Some u) i)))
            \<and> get_order (db (handle w (OrderCancel (Some u) i))) i
                = Some (ord\<lparr>status := ''cancelled'',
                             payment_status :=
                               (if payment_status ord = ''paid''
                                then ''refunded'' else ''cancelled'')\<rparr>)
            \<and> (\<forall>p. stock_at (db (handle w (OrderCancel (Some u) i))) p
                     = map_option (\<lambda>s. s + ordered_quantity (items ord) p) (stock_at (db w) p))
            \<and> order_cancel (db (handle w (OrderCancel (Some u) i))) (Some u) i
                = Inl NotCancellable
            \<and> handle (handle w (OrderCancel (Some u) i)) (OrderCancel (Some u) i)
                = handle w (OrderCancel (Some u) i))
       \<and> (status ord \<noteq> ''placed'' \<and> status ord \<noteq> ''packed'' \<longrightarrow>
            order_cancel (db w) (Some u) i = Inl NotCancellable
            \<and> handle w (OrderCancel (Some u) i) = w)"
proof -
  let ?c = "OrderCancel (Some u) i"
  let ?ord' = "ord\<lparr>status := ''cancelled'',
                     payment_status :=
                       (if payment_status ord = ''paid'' then ''refunded'' else ''cancelled'')\<rparr>"
  have accept: "status ord = ''placed'' \<or> status ord = ''packed'' \<longrightarrow>
            order_cancel (db w) (Some u) i = Inr (db (handle w ?c))
            \<and> get_order (db (handle w ?c)) i = Some ?ord'
            \<and> (\<forall>p. stock_at (db (handle w ?c)) p
                     = map_option (\<lambda>s. s + ordered_quantity (items ord) p) (stock_at (db w) p))
            \<and> order_cancel (db (handle w ?c)) (Some u) i = Inl NotCancellable
            \<and> handle (handle w ?c) ?c = handle w ?c"
  proof
    assume st: "status ord = ''placed'' \<or> status ord = ''packed''"
    let ?d' = "(db w)\<lparr>orders := update_order (orders (db w)) i ?ord',
                      products := restore_stock (products (db w)) (items ord)\<rparr>"
    have r: "order_cancel (db w) (Some u) i = Inr ?d'"
      by (rule order_cancel_accepts[OF assms st])
    then have h: "db (handle w ?c) = ?d'" by simp
    have "order_id ?ord' = i" using get_order_id[OF assms(1)] by simp
    from get_order_update[OF assms(1) this]
    have g: "get_order ?d' i = Some ?ord'"
      by (simp add: get_order_def)
    have s: "\<forall>p. stock_at ?d' p
                = map_option (\<lambda>s. s + ordered_quantity (items ord) p) (stock_at (db w) p)"
      by (simp add: stock_at_def restore_stock_adds)
    have again: "order_cancel ?d' (Some u) i = Inl NotCancellable"
      by (rule order_cancel_rejects[OF g]) (use assms(2) in simp_all)
    then have idem: "handle (handle w ?c) ?c = handle w ?c"
      by (simp add: r)
    from r g s again idem show "order_cancel (db w) (Some u) i = Inr (db (handle w ?c))
            \<and> get_order (db (handle w ?c)) i = Some ?ord'
            \<and> (\<forall>p. stock_at (db (handle w ?c)) p
                     = map_option (\<lambda>s. s + ordered_quantity (items ord) p) (stock_at (db w) p))
            \<and> order_cancel (db (handle w ?c)) (Some u) i = Inl NotCancellable
            \<and> handle (handle w ?c) ?c = handle w ?c"
      unfolding h by blast
  qed
  have reject: "status ord \<noteq> ''placed'' \<and> status ord \<noteq> ''packed'' \<longrightarrow>
            order_cancel (db w) (Some u) i = Inl NotCancellable \<and> handle w ?c = w"
  proof
    assume "status ord \<noteq> ''placed'' \<and> status ord \<noteq> ''packed''"
    then have "order_cancel (db w) (Some u) i = Inl NotCancellable"
      using order_cancel_rejects[OF assms] by blast
    then show "order_cancel (db w) (Some u) i = Inl NotCancellable \<and> handle w ?c = w"
      by simp
  qed
  from accept reject show ?thesis by blast
qed

text \<open>The paid order on file holds three of product 1 and one of product 2: cancelling
  it refunds it and takes the stocks from 5 and 3 to 8 and 4, once.\<close>

theorem cancel_restores_stock_once_witness:
  "get_order (db opening_day) 1 = Some earlier_order
   \<and> user_id earlier_order = uid asha \<and> status earlier_order = ''placed''
   \<and> payment_status earlier_order = ''paid''
   \<and> stock_at (db opening_day) 1 = Some 5 \<and> stock_at (db opening_day) 2 = Some 3
   \<and> map_option payment_status
        (get_order (db (handle opening_day (OrderCancel (Some asha) 1))) 1) = Some ''refunded''
   \<and> map_option status
        (get_order (db (handle opening_day (OrderCancel (Some asha) 1))) 1) = Some ''cancelled''
   \<and> stock_at (db (handle opening_day (OrderCancel (Some asha) 1))) 1 = Some 8
   \<and> stock_at (db (handle opening_day (OrderCancel (Some asha) 1))) 2 = Some 4
   \<and> run opening_day [OrderCancel (Some asha) 1, OrderCancel (Some asha) 1]
       = run opening_day [OrderCancel (Some asha) 1]"
proof -
  have own: "user_id earlier_order = uid asha \<or> is_admin asha"
    and st: "status earlier_order = ''placed''"
    and facts: "user_id earlier_order = uid asha" "payment_status earlier_order = ''paid''"
    by (simp_all add: earlier_order_def asha_def)
  have before: "stock_at (db opening_day) 1 = Some 5" "stock_at (db opening_day) 2 = Some 3"
    by (simp_all add: opening_day_def shop_with_order_def shop_def stock_at_def car_a_def car_b_def)
  have q: "ordered_quantity (items earlier_order) 1 = 3" "ordered_quantity (items earlier_order) 2 = 1"
    by (simp_all add: ordered_quantity_def earlier_order_def)
  note t = cancel_restores_stock_once[OF opening_day_order own]
  from t st have g: "get_order (db (handle opening_day (OrderCancel (Some asha) 1))) 1
       = Some (earlier_order\<lparr>status := ''cancelled'',
                 payment_status := (if payment_status earlier_order = ''paid''
                                    then ''refunded'' else ''cancelled'')\<rparr>)"
    by blast
  from t st have s: "\<forall>p. stock_at (db (handle opening_day (OrderCancel (Some asha) 1))) p
       = map_option (\<lambda>s. s + ordered_quantity (items earlier_order) p) (stock_at (db opening_day) p)"
    by blast
  from t st have i: "handle (handle opening_day (OrderCancel (Some asha) 1)) (OrderCancel (Some asha) 1)
       = handle opening_day (OrderCancel (Some asha) 1)"
    by blast
  have s1: "stock_at (db (handle opening_day (OrderCancel (Some asha) 1))) 1 = Some 8"
    and s2: "stock_at (db (handle opening_day (OrderCancel (Some asha) 1))) 2 = Some 4"
    using s by (simp_all add: before q)
  have r: "run opening_day [OrderCancel (Some asha) 1, OrderCancel (Some asha) 1]
       = run opening_day [OrderCancel (Some asha) 1]"
    using i by (simp add: run_def)
  have g1: "map_option payment_status
        (get_order (db (handle opening_day (OrderCancel (Some asha) 1))) 1) = Some ''refunded''"
    and g2: "map_option status
        (get_order (db (handle opening_day (OrderCancel (Some asha) 1))) 1) = Some ''cancelled''"
    unfolding g by (simp_all add: facts)
  from opening_day_order facts st before g1 g2 s1 s2 r show ?thesis
    by blast
qed

subsection \<open>Stock is never negative\<close>

lemma cart_lines_nonneg:
  assumes "quantities_nonneg c"
  shows "\<forall>l \<in> set (cart_lines ps c). 0 \<le> line_quantity l"
  using assms
proof (induction c)
  case Nil
  show ?case by simp
next
  case (Cons kv c)
  obtain p q where kv: "kv = (p, q)" by (cases kv)
  from Cons.prems have q: "0 \<le> q" and rest: "quantities_nonneg c"
    by (simp_all add: quantities_nonneg_def kv)
  from Cons.IH[OF rest] q show ?case
    by (cases "ps (key_id p)") (simp_all add: kv)
qed

lemma place_lines_stock_nonneg:
  assumes "stock_nonneg ps"
  shows "stock_nonneg (fst (place_lines ps ls))"
  using assms
proof (induction ls arbitrary: ps)
  case Nil
  then show ?case by simp
next
  case (Cons l ls)
  show ?case
  proof (cases "ps (line_product l)")
    case None
    with Cons show ?thesis by simp
  next
    case (Some pr)
    let ?ps' = "ps(line_product l \<mapsto> pr\<lparr>stock := max 0 (stock pr - line_quantity l),
                                            sold_count := sold_count pr + line_quantity l\<rparr>)"
    from Cons.prems have ok: "stock_nonneg ?ps'"
      by (auto simp: stock_nonneg_def)
    from Some have step: "fst (place_lines ps (l # ls)) = fst (place_lines ?ps' ls)"
      by (simp add: Let_def split: prod.splits)
    show ?thesis
      unfolding step by (rule Cons.IH[OF ok])
  qed
qed

lemma place_lines_items_nonneg:
  assumes "\<forall>l \<in> set ls. 0 \<le> line_quantity l"
  shows "items_nonneg (snd (place_lines ps ls))"
  using assms
proof (induction ls arbitrary: ps)
  case Nil
  then show ?case by (simp add: items_nonneg_def)
next
  case (Cons l ls)
  then have ih: "\<And>ps. items_nonneg (snd (place_lines ps ls))" and q: "0 \<le> line_quantity l"
    by simp_all
  show ?case
  proof (cases "ps (line_product l)")
    case None
    with ih show ?thesis by simp
  next
    case (Some pr)
    with ih[of "ps(line_product l \<mapsto> pr\<lparr>stock := max 0 (stock pr - line_quantity l),
                                            sold_count := sold_count pr + line_quantity l\<rparr>)"] q
    show ?thesis
      by (simp add: Let_def items_nonneg_def split: prod.splits)
  qed
qed

lemma restore_stock_nonneg:
  assumes "stock_nonneg ps" and "items_nonneg its"
  shows "stock_nonneg (restore_stock ps its)"
  using assms
proof (induction its arbitrary: ps)
  case Nil
  then show ?case by simp
next
  case (Cons it its)
  then have q: "0 \<le> quantity it" and rest: "items_nonneg its"
    by (simp_all add: items_nonneg_def)
  show ?case
  proof (cases "ps (product_id it)")
    case None
    with Cons.IH[OF Cons.prems(1) rest] show ?thesis by simp
  next
    case (Some pr)
    let ?ps' = "ps(product_id it \<mapsto> pr\<lparr>stock := stock pr + quantity it\<rparr>)"
    from Some Cons.prems(1) q have ok: "stock_nonneg ?ps'"
      by (auto simp: stock_nonneg_def)
    from Some have step: "restore_stock ps (it # its) = restore_stock ?ps' its"
      by simp
    show ?thesis
      unfolding step by (rule Cons.IH[OF ok rest])
  qed
qed

lemma update_order_nonneg:
  assumes "order_quantities_nonneg os" and "items_nonneg (items new)"
  shows "order_quantities_nonneg (update_order os i new)"
  using assms by (induction os) (auto simp: order_quantities_nonneg_def)

lemma get_order_member: "get_order d i = Some ord \<Longrightarrow> ord \<in> set (orders d)"
  by (auto simp: get_order_def find_Some_iff)

lemma dict_set_nonneg:
  assumes "quantities_nonneg c" and "0 \<le> v"
  shows "quantities_nonneg (dict_set c k v)"
  using assms by (induction c k v rule: dict_set.induct) (auto simp: quantities_nonneg_def)

lemma dict_get_nonneg:
  assumes "quantities_nonneg c"
  shows "0 \<le> dict_get c k"
proof (cases "map_of c k")
  case None
  then show ?thesis by (simp add: dict_get_def)
next
  case (Some v)
  then have "(k, v) \<in> set c" by (rule map_of_SomeD)
  with assms have "0 \<le> v" by (auto simp: quantities_nonneg_def)
  with Some show ?thesis by (simp add: dict_get_def)
qed

lemma cart_update_loop_nonneg:
  assumes "stock_nonneg ps" and "quantities_nonneg c"
  shows "quantities_nonneg (cart_update_loop ps form c)"
  using assms(2)
proof (induction form arbitrary: c)
  case Nil
  then show ?case by simp
next
  case (Cons kv form)
  obtain p v where kv: "kv = (p, v)" by (cases kv)
  show ?case
  proof (cases "ps (key_id p)")
    case None
    with Cons kv show ?thesis by simp
  next
    case (Some pr)
    with assms(1) have "0 \<le> stock pr" by (auto simp: stock_nonneg_def)
    then have "0 \<le> min (max 1 v) (stock pr)" by simp
    from dict_set_nonneg[OF Cons.prems this] Cons.IH Cons.prems Some kv
    show ?thesis by (simp add: Let_def)
  qed
qed

lemma cart_add_nonneg:
  assumes "quantities_nonneg (session_cart sess)" and "cart_add d sess p q = Inr sess'"
  shows "quantities_nonneg (session_cart sess')"
proof -
  from assms(2) obtain pr where pr: "products d p = Some pr" and av: "0 < stock pr"
    and s': "sess' = sess\<lparr>session_cart := dict_set (session_cart sess) (str_key p)
               (if stock pr < dict_get (session_cart sess) (str_key p) + max 1 q
                then stock pr else dict_get (session_cart sess) (str_key p) + max 1 q)\<rparr>"
    by (auto simp: cart_add_def Let_def split: option.splits if_splits)
  have "0 \<le> dict_get (session_cart sess) (str_key p)" by (rule dict_get_nonneg[OF assms(1)])
  with av have "0 \<le> (if stock pr < dict_get (session_cart sess) (str_key p) + max 1 q
                then stock pr else dict_get (session_cart sess) (str_key p) + max 1 q)"
    by simp
  from dict_set_nonneg[OF assms(1) this] show ?thesis by (simp add: s')
qed

lemma checkout_keeps_stock_nonneg:
  assumes "stock_nonneg (products d)" and "checkout d sess cu form now ts rn rt = Inr (d', s', ord)"
  shows "stock_nonneg (products d')"
  using checkout_InrD[OF assms(2)] place_lines_stock_nonneg[OF assms(1)] by auto

lemma checkout_keeps_orders_nonneg:
  assumes "order_quantities_nonneg (orders d)" and "quantities_nonneg (session_cart sess)"
    and "checkout d sess cu form now ts rn rt = Inr (d', s', ord)"
  shows "order_quantities_nonneg (orders d')"
proof -
  have "items_nonneg (snd (place_lines (products d) (items_of (cart_items d sess now))))"
    unfolding cart_items_components(6)
    by (rule place_lines_items_nonneg[OF cart_lines_nonneg[OF assms(2)]])
  with checkout_InrD[OF assms(3)] assms(1) show ?thesis
    by (auto simp: order_quantities_nonneg_def new_order_def)
qed

lemma order_cancel_InrD:
  assumes "order_cancel d cu i = Inr d'"
  shows "\<exists>ord. get_order d i = Some ord
           \<and> d' = d\<lparr>orders := update_order (orders d) i
                        (ord\<lparr>status := ''cancelled'',
                              payment_status :=
                                (if payment_status ord = ''paid''
                                 then ''refunded'' else ''cancelled'')\<rparr>),
                     products := restore_stock (products d) (items ord)\<rparr>"
  using assms by (auto simp: order_cancel_def Let_def split: option.splits if_splits)

lemma order_cancel_keeps_nonneg:
  assumes "stock_nonneg (products d)" and "order_quantities_nonneg (orders d)"
    and "order_cancel d cu i = Inr d'"
  shows "stock_nonneg (products d') \<and> order_quantities_nonneg (orders d')"
proof -
  from order_cancel_InrD[OF assms(3)] obtain ord where g: "get_order d i = Some ord"
    and d': "d' = d\<lparr>orders := update_order (orders d) i
                        (ord\<lparr>status := ''cancelled'',
                              payment_status :=
                                (if payment_status ord = ''paid''
                                 then ''refunded'' else ''cancelled'')\<rparr>),
                     products := restore_stock (products d) (items ord)\<rparr>"
    by blast
  from get_order_member[OF g] assms(2) have it: "items_nonneg (items ord)"
    by (auto simp: order_quantities_nonneg_def)
  from restore_stock_nonneg[OF assms(1) it] update_order_nonneg[OF assms(2), of _ i] it
  show ?thesis by (simp add: d')
qed

lemma admin_orders_keeps_nonneg:
  assumes "order_quantities_nonneg (orders d)" and "admin_orders d cu i st now rnd = Inr d'"
  shows "products d' = products d \<and> order_quantities_nonneg (orders d')"
proof -
  from assms(2) obtain ord where g: "get_order d i = Some ord"
    by (auto simp: admin_orders_def split: option.splits if_splits)
  from get_order_member[OF g] assms(1) have it: "items_nonneg (items ord)"
    by (auto simp: order_quantities_nonneg_def)
  from admin_orders_InrD[OF assms(2) g] update_order_nonneg[OF assms(1), of _ i] it
  show ?thesis by simp
qed

lemma cart_quantities_nonneg_upd:
  assumes "cart_quantities_nonneg ss" and "quantities_nonneg (session_cart s)"
  shows "cart_quantities_nonneg (ss(sid := s))"
  using assms by (simp add: cart_quantities_nonneg_def)

lemma cart_quantities_nonneg_at:
  "cart_quantities_nonneg ss \<Longrightarrow> quantities_nonneg (session_cart (ss sid))"
  by (simp add: cart_quantities_nonneg_def)

lemma handle_consistent:
  assumes "consistent w"
  shows "consistent (handle w req)"
proof -
  from assms have st: "stock_nonneg (products (db w))"
    and os: "order_quantities_nonneg (orders (db w))"
    and cs: "cart_quantities_nonneg (sessions w)"
    by (simp_all add: consistent_def)
  show ?thesis
  proof (cases req)
    case (CartAdd sid p q)
    show ?thesis
    proof (cases "cart_add (db w) (sessions w sid) p q")
      case (Inl e)
      with CartAdd assms show ?thesis by simp
    next
      case (Inr s)
      from cart_add_nonneg[OF cart_quantities_nonneg_at[OF cs] Inr]
      have "cart_quantities_nonneg ((sessions w)(sid := s))"
        by (rule cart_quantities_nonneg_upd[OF cs])
      with CartAdd Inr st os show ?thesis by (simp add: consistent_def)
    qed
  next
    case (CartUpdate sid form)
    have "quantities_nonneg (cart_update_loop (products (db w)) form [])"
      by (rule cart_update_loop_nonneg[OF st]) (simp add: quantities_nonneg_def)
    then have "cart_quantities_nonneg
        ((sessions w)(sid := cart_update (db w) (sessions w sid) form))"
      by (intro cart_quantities_nonneg_upd[OF cs]) (simp add: cart_update_def)
    with CartUpdate st os show ?thesis by (simp add: consistent_def)
  next
    case (CartRemove sid p)
    from cart_quantities_nonneg_at[OF cs, of sid]
    have "quantities_nonneg (session_cart (cart_remove (sessions w sid) p))"
      by (auto simp: cart_remove_def quantities_nonneg_def)
    then have "cart_quantities_nonneg ((sessions w)(sid := cart_remove (sessions w sid) p))"
      by (rule cart_quantities_nonneg_upd[OF cs])
    with CartRemove st os show ?thesis by (simp add: consistent_def)
  next
    case (CartCoupon sid cc now)
    show ?thesis
    proof (cases "cart_coupon (db w) (sessions w sid) cc now")
      case (Inl e)
      with CartCoupon assms show ?thesis by simp
    next
      case (Inr s)
      then have "session_cart s = session_cart (sessions w sid)"
        by (auto simp: cart_coupon_def split: option.splits if_splits prod.splits)
      with cart_quantities_nonneg_at[OF cs, of sid]
      have "cart_quantities_nonneg ((sessions w)(sid := s))"
        by (intro cart_quantities_nonneg_upd[OF cs]) simp
      with CartCoupon Inr st os show ?thesis by (simp add: consistent_def)
    qed
  next
    case (CartCouponRemove sid)
    from cart_quantities_nonneg_at[OF cs, of sid]
    have "cart_quantities_nonneg ((sessions w)(sid := cart_coupon_remove (sessions w sid)))"
      by (intro cart_quantities_nonneg_upd[OF cs]) (simp add: cart_coupon_remove_def)
    with CartCouponRemove st os show ?thesis by (simp add: consistent_def)
  next
    case (Checkout sid u form now ts rn rt)
    show ?thesis
    proof (cases "checkout (db w) (sessions w sid) u form now ts rn rt")
      case (Inl e)
      with Checkout assms show ?thesis by simp
    next
      case (Inr r)
      obtain d' s' ord where r: "r = (d', s', ord)" by (cases r)
      note co = Inr[unfolded r]
      have a: "stock_nonneg (products d')"
        by (rule checkout_keeps_stock_nonneg[OF st co])
      have b: "order_quantities_nonneg (orders d')"
        by (rule checkout_keeps_orders_nonneg[OF os cart_quantities_nonneg_at[OF cs] co])
      from checkout_InrD[OF co] have "session_cart s' = []" by auto
      then have c: "cart_quantities_nonneg ((sessions w)(sid := s'))"
        by (intro cart_quantities_nonneg_upd[OF cs]) (simp add: quantities_nonneg_def)
      from Checkout co a b c show ?thesis by (simp add: consistent_def)
    qed
  next
    case (OrderCancel u i)
    show ?thesis
    proof (cases "order_cancel (db w) u i")
      case (Inl e)
      with OrderCancel assms show ?thesis by simp
    next
      case (Inr d')
      from order_cancel_keeps_nonneg[OF st os Inr] OrderCancel Inr cs
      show ?thesis by (simp add: consistent_def)
    qed
  next
    case (AdminOrders u i status' now rnd)
    show ?thesis
    proof (cases "admin_orders (db w) u i status' now rnd")
      case (Inl e)
      with AdminOrders assms show ?thesis by simp
    next
      case (Inr d')
      from admin_orders_keeps_nonneg[OF os Inr] AdminOrders Inr cs st
      show ?thesis by (simp add: consistent_def)
    qed
  qed
qed

lemma run_consistent:
  assumes "consistent w"
  shows "consistent (run w reqs)"
  using assms unfolding run_def
  by (induction reqs arbitrary: w) (simp_all add: handle_consistent)

lemma shop_stock_nonneg: "stock_nonneg (products shop)"
  by (auto simp: stock_nonneg_def shop_def car_a_def car_b_def split: if_splits)

lemma opening_day_consistent: "consistent opening_day"
proof -
  have "order_quantities_nonneg [earlier_order]"
    by (simp add: order_quantities_nonneg_def items_nonneg_def earlier_order_def)
  moreover have "cart_quantities_nonneg (\<lambda>sid. basket [] None)"
    by (simp add: cart_quantities_nonneg_def quantities_nonneg_def basket_def str_key_def key_id_def)
  ultimately show ?thesis
    using shop_stock_nonneg
    by (simp add: consistent_def opening_day_def shop_with_order_def)
qed

lemma busy_day_stock:
  "stock_at (db (run opening_day busy_day)) 1 = Some 3"
  "stock_at (db (run opening_day busy_day)) 2 = Some 3"
  by (simp_all add: run_def busy_day_def opening_day_def shop_with_order_def shop_def
        car_a_def car_b_def earlier_order_def basket_def str_key_def key_id_def asha_def admin_def
        cod_form_def home_def ten_percent_def half_off_def double_off_def
        cart_add_def cart_update_def cart_remove_def dict_get_def
        checkout_def cart_items_def session_discount_def py_round_def round_half_even_def
        resolve_shipping_address_def default_address_def selected_address_def
        order_number_taken_def tracking_code_taken_def generate_order_number_def
        generate_tracking_code_def new_order_def next_order_id_def count_coupon_use_def
        order_cancel_def admin_orders_def get_order_def truthy_def stock_at_def Let_def)


lemma shop_with_order_cancel:
  "order_cancel shop_with_order (Some asha) 1 =
     Inr (shop_with_order\<lparr>orders := update_order (orders shop_with_order) 1
                 (earlier_order\<lparr>status := ''cancelled'',
                       payment_status :=
                         (if payment_status earlier_order = ''paid''
                          then ''refunded'' else ''cancelled'')\<rparr>),
             products := restore_stock (products shop_with_order) (items earlier_order)\<rparr>)"
  by (rule order_cancel_accepts[OF shop_with_order_get])
     (simp_all add: earlier_order_def asha_def)

text \<open>
  Claim C3. From a store in which no stock is negative and no cart or order line holds a
  negative quantity (any fresh store is one), every sequence of requests to the cart,
  checkout, cancellation and order-status routes leaves every stock non-negative. For
  the two operations that write stock: a successful checkout keeps all stocks
  non-negative whatever the cart holds, since it writes \<open>max 0 (stock - quantity)\<close>;
  a successful cancellation keeps them non-negative because the quantities it adds back
  are non-negative.
\<close>

theorem stock_never_negative:
  "(consistent w \<longrightarrow> stock_nonneg (products (db (run w reqs))))
   \<and> (stock_nonneg (products d) \<and> placed (checkout d sess cu form now ts rn rt) \<longrightarrow>
        stock_nonneg (products (database_after (checkout d sess cu form now ts rn rt))))
   \<and> (stock_nonneg (products d0) \<and> order_quantities_nonneg (orders d0)
        \<and> order_cancel d0 au i = Inr d1 \<longrightarrow> stock_nonneg (products d1))"
proof -
  have a: "consistent w \<longrightarrow> stock_nonneg (products (db (run w reqs)))"
    using run_consistent[of w reqs] by (simp add: consistent_def)
  have b: "stock_nonneg (products d) \<and> placed (checkout d sess cu form now ts rn rt) \<longrightarrow>
        stock_nonneg (products (database_after (checkout d sess cu form now ts rn rt)))"
  proof
    assume h: "stock_nonneg (products d) \<and> placed (checkout d sess cu form now ts rn rt)"
    then obtain d' s' ord where r: "checkout d sess cu form now ts rn rt = Inr (d', s', ord)"
      by (cases "checkout d sess cu form now ts rn rt") (auto simp: placed_def)
    from h checkout_keeps_stock_nonneg[OF _ r]
    show "stock_nonneg (products (database_after (checkout d sess cu form now ts rn rt)))"
      by (simp add: r database_after_def)
  qed
  have c: "stock_nonneg (products d0) \<and> order_quantities_nonneg (orders d0)
        \<and> order_cancel d0 au i = Inr d1 \<longrightarrow> stock_nonneg (products d1)"
    using order_cancel_keeps_nonneg[of d0 au i d1] by blast
  from a b c show ?thesis by blast
qed

text \<open>A day in the small store: a cart is filled and updated, checked out (stocks 5 and
  3 fall to 0 and 2), the earlier order is cancelled (3 and 3), the new order is shipped,
  and the second cancellation is refused.\<close>

theorem stock_never_negative_witness:
  "consistent opening_day
   \<and> stock_nonneg (products (db (run opening_day busy_day)))
   \<and> stock_at (db (run opening_day busy_day)) 1 = Some 3
   \<and> stock_at (db (run opening_day busy_day)) 2 = Some 3
   \<and> stock_nonneg (products shop)
   \<and> placed (asha_checkout (basket [(str_key 1, 2), (str_key 2, 1)] None))
   \<and> stock_nonneg (products (database_after (asha_checkout (basket [(str_key 1, 2), (str_key 2, 1)] None))))
   \<and> stock_nonneg (products shop_with_order)
   \<and> order_quantities_nonneg (orders shop_with_order)
   \<and> \<not> isl (order_cancel shop_with_order (Some asha) 1)
   \<and> stock_nonneg (products (projr (order_cancel shop_with_order (Some asha) 1)))"
proof -
  have so: "stock_nonneg (products shop_with_order)"
    and oo: "order_quantities_nonneg (orders shop_with_order)"
    using opening_day_consistent by (simp_all add: consistent_def opening_day_def)
  have ok: "\<not> isl (order_cancel shop_with_order (Some asha) 1)"
    by (simp add: shop_with_order_cancel)
  then have r: "order_cancel shop_with_order (Some asha) 1
                  = Inr (projr (order_cancel shop_with_order (Some asha) 1))"
    by simp
  note t = stock_never_negative[of opening_day busy_day shop "basket [(str_key 1, 2), (str_key 2, 1)] None"
      "Some asha" "Some cod_form" 50 "''20260101120000''" "''4711''" "''ABCDEFGHJKLM''"
      shop_with_order "Some asha" 1 "projr (order_cancel shop_with_order (Some asha) 1)"]
  from t opening_day_consistent
  have a: "stock_nonneg (products (db (run opening_day busy_day)))" by blast
  from t shop_stock_nonneg asha_checkout_placed
  have b: "stock_nonneg (products (database_after (asha_checkout (basket [(str_key 1, 2), (str_key 2, 1)] None))))"
    unfolding asha_checkout_def by blast
  from t so oo r
  have c: "stock_nonneg (products (projr (order_cancel shop_with_order (Some asha) 1)))"
    by blast
  from opening_day_consistent a busy_day_stock shop_stock_nonneg asha_checkout_placed b so oo ok c
  show ?thesis by blast
qed

subsection \<open>Checkout of a line above the current stock\<close>

lemmas evaluation_simps =
  run_def opening_day_def fresh_shop_def shop_with_order_def shop_def
  car_a_def car_b_def earlier_order_def basket_def str_key_def key_id_def asha_def admin_def
  cod_form_def home_def ten_percent_def half_off_def double_off_def capped_half_def
  cart_add_def cart_update_def cart_remove_def cart_coupon_def dict_get_def
  active_coupon_def usage_limit_reached_def coupon_discount_def py_or_def
  checkout_def cart_items_def session_discount_def py_round_def round_half_even_def
  resolve_shipping_address_def default_address_def selected_address_def
  order_number_taken_def tracking_code_taken_def generate_order_number_def
  generate_tracking_code_def new_order_def next_order_id_def count_coupon_use_def
  order_cancel_def admin_orders_def get_order_def truthy_def
  stock_at_def sold_count_at_def used_count_at_def Let_def

lemma two_keys_cart_written:
  "session_cart (sessions (run fresh_shop [CartUpdate 0 two_keys_cart]) 0) = two_keys_cart"
  by (simp add: two_keys_cart_def evaluation_simps)

lemma two_keys_lines:
  "items_of (cart_items shop (basket two_keys_cart (Some ''HALF'')) 50)
     = [\<lparr>line_product = 1, line_quantity = 4, line_subtotal = 400\<rparr>,
        \<lparr>line_product = 1, line_quantity = 4, line_subtotal = 400\<rparr>]"
  by (simp add: cart_items_components(6) two_keys_cart_def shop_def basket_def car_a_def
        str_key_def key_id_def)

lemma two_keys_first_line:
  "map_option stock
     (fst (place_lines (products shop)
             [\<lparr>line_product = 1, line_quantity = 4, line_subtotal = 400\<rparr>]) 1) = Some 1"
  by (simp add: shop_def car_a_def)

lemma two_keys_after:
  "map (map quantity \<circ> items) (orders (db (run fresh_shop two_keys_checkout))) = [[4, 4]]"
  "stock_at (db (run fresh_shop two_keys_checkout)) 1 = Some 0"
  "sold_count_at (db (run fresh_shop two_keys_checkout)) 1 = Some 8"
  "used_count_at (db (run fresh_shop two_keys_checkout)) ''HALF'' = Some 1"
  by (simp_all add: two_keys_checkout_def two_keys_cart_def evaluation_simps)

text \<open>
  Claim C2 at a cart with two keys for product 1, which has 5 in stock. \<^verbatim>\<open>cart_update\<close>
  writes both keys, and \<^verbatim>\<open>cart_items\<close> caps each line by the stock on its own: two
  lines of 4. At checkout the first line takes the stock from 5 to 1, so the second
  line's quantity 4 exceeds the current stock 1. The checkout does not fail: it inserts
  an order for 4 and 4, 8 in all, writes stock 0 and sold count 8, and raises the use
  count of the coupon from 0 to 1.
\<close>

theorem two_keys_oversell:
  "stock_at shop 1 = Some 5 \<and> sold_count_at shop 1 = Some 0
   \<and> used_count_at shop ''HALF'' = Some 0 \<and> orders shop = []
   \<and> session_cart (sessions (run fresh_shop [CartUpdate 0 two_keys_cart]) 0)
       = [(str_key 1, 4), ((1, 1), 4)]
   \<and> map line_quantity (items_of (cart_items shop (basket two_keys_cart (Some ''HALF'')) 50))
       = [4, 4]
   \<and> map_option stock
        (fst (place_lines (products shop)
                [\<lparr>line_product = 1, line_quantity = 4, line_subtotal = 400\<rparr>]) 1) = Some 1
   \<and> map (map quantity \<circ> items) (orders (db (run fresh_shop two_keys_checkout))) = [[4, 4]]
   \<and> stock_at (db (run fresh_shop two_keys_checkout)) 1 = Some 0
   \<and> sold_count_at (db (run fresh_shop two_keys_checkout)) 1 = Some 8
   \<and> used_count_at (db (run fresh_shop two_keys_checkout)) ''HALF'' = Some 1"
proof -
  have before: "stock_at shop 1 = Some 5 \<and> sold_count_at shop 1 = Some 0
      \<and> used_count_at shop ''HALF'' = Some 0 \<and> orders shop = []"
    by (simp add: stock_at_def sold_count_at_def used_count_at_def shop_def car_a_def
          half_off_def)
  have written: "session_cart (sessions (run fresh_shop [CartUpdate 0 two_keys_cart]) 0)
       = [(str_key 1, 4), ((1, 1), 4)]"
    unfolding two_keys_cart_written by (simp add: two_keys_cart_def)
  have lines: "map line_quantity
        (items_of (cart_items shop (basket two_keys_cart (Some ''HALF'')) 50)) = [4, 4]"
    by (simp add: two_keys_lines)
  from before written lines two_keys_first_line two_keys_after show ?thesis
    by blast
qed

end
